theory Spec2Isabelle
  imports Complex_Main "HOL-Library.AList"
begin

unbundle bit_operations_syntax

section \<open>Data model\<close>

text \<open>
  The Go sources are embedded as follows.
  \<^item> A Go \<^verbatim>\<open>string\<close> and a \<^verbatim>\<open>[]byte\<close> are byte sequences: \<open>string\<close>
    (\<open>char list\<close>, one \<open>char\<close> per byte).
  \<^item> The values of \<^verbatim>\<open>float64\<close> are the elements of a type \<open>'f\<close> that is left open, and
    the operations of Go on them are the fields of a record \<open>'f arith\<close>, which every
    function that computes with them takes as its first argument \<open>ar\<close>. Each operator
    of the source is one application of a field, in the order in which Go evaluates the
    expression, and each result is rounded on its own (no product is fused with a sum,
    as on amd64). Nothing is assumed of the operations, so what is proved holds for
    every arithmetic, IEEE 754 binary64 with its rounding, infinities and NaN among
    them.
  \<^item> A Go \<^verbatim>\<open>map\<close> is an association list read with \<open>map_of\<close> and written
    with \<open>AList.update\<close>; it is empty exactly when the list is.
  \<^item> A pointer that may be \<^verbatim>\<open>nil\<close> is an \<open>option\<close>.
  \<^item> A returned \<^verbatim>\<open>error\<close> is \<open>Inl (Failure msg)\<close>, a run-time panic (which nothing
    in the sources recovers from) is \<open>Inl (Panic msg)\<close>.
\<close>

text \<open>The operations on \<^verbatim>\<open>float64\<close>: \<open>f_lit\<close> is the value of a constant of the source
  text and of an integer converted with \<^verbatim>\<open>float64(n)\<close>; \<open>f_add\<close>, \<open>f_sub\<close>, \<open>f_mul\<close> and
  \<open>f_div\<close> are \<^verbatim>\<open>+\<close>, \<^verbatim>\<open>-\<close>, \<^verbatim>\<open>*\<close> and \<^verbatim>\<open>/\<close>; \<open>f_neg\<close> is the unary \<^verbatim>\<open>-\<close>; \<open>f_abs\<close> is
  \<^verbatim>\<open>math.Abs\<close>; \<open>f_gt\<close> is \<^verbatim>\<open>>\<close>; \<open>f_int\<close> is the conversion \<^verbatim>\<open>int(x)\<close>.\<close>

record 'f arith =
  f_lit :: "real \<Rightarrow> 'f"
  f_add :: "'f \<Rightarrow> 'f \<Rightarrow> 'f"
  f_sub :: "'f \<Rightarrow> 'f \<Rightarrow> 'f"
  f_mul :: "'f \<Rightarrow> 'f \<Rightarrow> 'f"
  f_div :: "'f \<Rightarrow> 'f \<Rightarrow> 'f"
  f_neg :: "'f \<Rightarrow> 'f"
  f_abs :: "'f \<Rightarrow> 'f"
  f_gt :: "'f \<Rightarrow> 'f \<Rightarrow> bool"
  f_int :: "'f \<Rightarrow> int"

datatype fault = Failure string | Panic string

text \<open>pkg/pdf object model; \<open>NilValue\<close> is the \<^verbatim>\<open>nil\<close> interface value that reading a
  missing dictionary key yields.\<close>

datatype 'f Object =
    NilValue
  | NullObject
  | BooleanObject bool
  | NumberObject 'f
  | NameObject string
  | StringObject string
  | HexStringObject string
  | ArrayObject "'f Object list"
  | DictionaryObject "(string \<times> 'f Object) list"
  | IndirectObject int int
  | StreamObject "(string \<times> 'f Object) list" string
  | KeywordObject string

type_synonym 'f Dictionary = "(string \<times> 'f Object) list"

text \<open>\<^verbatim>\<open>d[key]\<close> on a Go map of objects.\<close>

definition index_dict :: "'f Dictionary \<Rightarrow> string \<Rightarrow> 'f Object" where
  "index_dict d k = (case map_of d k of None \<Rightarrow> NilValue | Some v \<Rightarrow> v)"

record 'f Operation =
  Operator :: string
  Operands :: "'f Object list"

text \<open>\<^verbatim>\<open>type Matrix [6]float64\<close>: the entry at index \<open>i\<close> is the field \<open>mi\<close>.\<close>

record 'f Matrix =
  m0 :: 'f
  m1 :: 'f
  m2 :: 'f
  m3 :: 'f
  m4 :: 'f
  m5 :: 'f

definition IdentityMatrix :: "'f arith \<Rightarrow> 'f Matrix" where
  "IdentityMatrix ar =
     \<lparr>m0 = f_lit ar 1, m1 = f_lit ar 0, m2 = f_lit ar 0, m3 = f_lit ar 1, m4 = f_lit ar 0,
      m5 = f_lit ar 0\<rparr>"

definition Mult :: "'f arith \<Rightarrow> 'f Matrix \<Rightarrow> 'f Matrix \<Rightarrow> 'f Matrix" where
  "Mult ar a b =
     \<lparr>m0 = f_add ar (f_mul ar (m0 a) (m0 b)) (f_mul ar (m1 a) (m2 b)),
      m1 = f_add ar (f_mul ar (m0 a) (m1 b)) (f_mul ar (m1 a) (m3 b)),
      m2 = f_add ar (f_mul ar (m2 a) (m0 b)) (f_mul ar (m3 a) (m2 b)),
      m3 = f_add ar (f_mul ar (m2 a) (m1 b)) (f_mul ar (m3 a) (m3 b)),
      m4 = f_add ar (f_add ar (f_mul ar (m4 a) (m0 b)) (f_mul ar (m5 a) (m2 b))) (m4 b),
      m5 = f_add ar (f_add ar (f_mul ar (m4 a) (m1 b)) (f_mul ar (m5 a) (m3 b))) (m5 b)\<rparr>"

record 'f GraphicsState =
  CTM :: "'f Matrix"

record CMap =
  Map :: "(string \<times> string) list"

record 'f Font =
  BaseFont :: string
  CMap :: "CMap option"
  Widths :: "(int \<times> 'f) list"
  MissingW :: 'f
  SpaceWidth :: 'f
  IsCID :: bool

record 'f TextState =
  Font :: "'f Font option"
  FontSize :: 'f
  CharSpacing :: 'f
  WordSpacing :: 'f
  Scale :: 'f
  Leading :: 'f
  Rise :: 'f
  TM :: "'f Matrix"
  TLM :: "'f Matrix"

text \<open>The fields that \<^verbatim>\<open>NewTextState\<close> does not name hold the zero value.\<close>

definition NewTextState :: "'f arith \<Rightarrow> 'f TextState" where
  "NewTextState ar =
     \<lparr>Font = None, FontSize = f_lit ar 0, CharSpacing = f_lit ar 0, WordSpacing = f_lit ar 0,
      Scale = f_lit ar 100, Leading = f_lit ar 0, Rise = f_lit ar 0,
      TM = IdentityMatrix ar, TLM = IdentityMatrix ar\<rparr>"

text \<open>The extractor. Its \<^verbatim>\<open>reader\<close> field points to the external reader, which the
  functions that use it take as an argument.\<close>

record 'f Extractor =
  page :: "'f Dictionary"
  gState :: "'f GraphicsState"
  gStack :: "'f GraphicsState list"
  textState :: "'f TextState"
  fonts :: "(string \<times> 'f Font) list"
  lastX :: 'f
  lastY :: 'f
  buffer :: string

section \<open>Helpers\<close>

definition number :: "'f arith \<Rightarrow> 'f Object \<Rightarrow> 'f" where
  "number ar o' = (case o' of NumberObject n \<Rightarrow> n | _ \<Rightarrow> f_lit ar 0)"

text \<open>\<open>argsToMatrix\<close> reads indices 0 to 5; both callers check \<^verbatim>\<open>len(op.Operands) == 6\<close>
  first.\<close>

definition argsToMatrix :: "'f arith \<Rightarrow> 'f Object list \<Rightarrow> 'f Matrix" where
  "argsToMatrix ar args =
     \<lparr>m0 = number ar (args ! 0), m1 = number ar (args ! 1),
      m2 = number ar (args ! 2), m3 = number ar (args ! 3),
      m4 = number ar (args ! 4), m5 = number ar (args ! 5)\<rparr>"

text \<open>\<^verbatim>\<open>strings.HasSuffix\<close>.\<close>

definition HasSuffix :: "string \<Rightarrow> string \<Rightarrow> bool" where
  "HasSuffix s suffix' =
     (length suffix' \<le> length s \<and> drop (length s - length suffix') s = suffix')"

text \<open>\<^verbatim>\<open>fmt.Sprintf("%04X", n)\<close> for \<open>n \<ge> 0\<close>: upper-case hexadecimal digits, padded
  with zeros on the left to at least four characters.\<close>

definition hexDigit :: "nat \<Rightarrow> char" where
  "hexDigit d = ''0123456789ABCDEF'' ! (d mod 16)"

function hexDigits :: "nat \<Rightarrow> string" where
  "hexDigits n = (if n < 16 then [hexDigit n] else hexDigits (n div 16) @ [hexDigit (n mod 16)])"
  by pat_completeness auto
termination
  by (relation "measure id") auto

definition Sprintf_04X :: "nat \<Rightarrow> string" where
  "Sprintf_04X n = replicate (4 - length (hexDigits n)) (CHR ''0'') @ hexDigits n"

text \<open>\<^verbatim>\<open>string(b)\<close> for one byte \<open>b\<close>: Go converts an integer to the UTF-8 encoding of the
  code point of that value, so a byte from 0x80 on becomes two bytes.\<close>

definition string_of_byte :: "char \<Rightarrow> string" where
  "string_of_byte b =
     (if (of_char b :: nat) < 128 then [b]
      else [char_of (192 + (of_char b :: nat) div 64), char_of (128 + (of_char b :: nat) mod 64)])"

section \<open>Showing a string: handleText\<close>

text \<open>Lines 264-272: the raw bytes of a string operand; any other object makes
  \<open>handleText\<close> return at once.\<close>

definition rawBytes_of :: "'f Object \<Rightarrow> string option" where
  "rawBytes_of obj =
     (case obj of StringObject s \<Rightarrow> Some s | HexStringObject h \<Rightarrow> Some h | _ \<Rightarrow> None)"

text \<open>Lines 285-295: the local variables \<^verbatim>\<open>spaceWidth\<close> and \<^verbatim>\<open>threshold\<close>. The source
  writes \<^verbatim>\<open>(SpaceWidth / 1000.0) * FontSize * (Scale / 100.0)\<close>, \<^verbatim>\<open>FontSize * 0.2\<close> and
  \<^verbatim>\<open>spaceWidth * 0.5\<close>.\<close>

definition spaceWidth :: "'f arith \<Rightarrow> 'f TextState \<Rightarrow> 'f" where
  "spaceWidth ar ts =
     (case Font ts of
        None \<Rightarrow> f_lit ar 0
      | Some f \<Rightarrow>
          f_mul ar (f_mul ar (f_div ar (SpaceWidth f) (f_lit ar 1000)) (FontSize ts))
            (f_div ar (Scale ts) (f_lit ar 100)))"

definition threshold :: "'f arith \<Rightarrow> 'f TextState \<Rightarrow> 'f" where
  "threshold ar ts =
     (if f_gt ar (spaceWidth ar ts) (f_lit ar 0) then f_mul ar (spaceWidth ar ts) (f_lit ar 0.5)
      else f_mul ar (FontSize ts) (f_lit ar 0.2))"

text \<open>Lines 297-309: the buffer after the spacing step, for a string that starts at
  \<open>(x, y)\<close>. The source compares \<^verbatim>\<open>math.Abs(y-e.lastY) > (FontSize * 0.5)\<close> and
  \<^verbatim>\<open>x - e.lastX > threshold\<close>.\<close>

definition detectSpacing :: "'f arith \<Rightarrow> 'f Extractor \<Rightarrow> 'f \<Rightarrow> 'f \<Rightarrow> string" where
  "detectSpacing ar e x y =
     (if f_gt ar (f_abs ar (f_sub ar y (lastY e))) (f_mul ar (FontSize (textState e)) (f_lit ar 0.5))
      then
        (if length (buffer e) > 0 then buffer e @ [CHR 0x0A] else buffer e)
      else
        (if f_gt ar (f_sub ar x (lastX e)) (threshold ar (textState e)) then
           (if length (buffer e) > 0 \<and> \<not> HasSuffix (buffer e) [CHR 0x0A]
               \<and> \<not> HasSuffix (buffer e) '' ''
            then buffer e @ '' '' else buffer e)
         else buffer e))"

text \<open>Lines 314-335: the loop over \<^verbatim>\<open>rawBytes\<close>, as a recursion on the bytes from index
  \<open>i\<close> on. \<open>cm\<close> is \<^verbatim>\<open>Font.CMap.Map\<close>.\<close>

fun decodeWithCMap :: "(string \<times> string) list \<Rightarrow> string \<Rightarrow> string" where
  "decodeWithCMap cm [] = []"
| "decodeWithCMap cm [b] =
     (case map_of cm (Sprintf_04X (of_char b)) of
        Some val \<Rightarrow> val
      | None \<Rightarrow> string_of_byte b)"
| "decodeWithCMap cm (b # b' # rest) =
     (case map_of cm (Sprintf_04X (push_bit 8 (of_char b) OR of_char b')) of
        Some val \<Rightarrow> val @ decodeWithCMap cm rest
      | None \<Rightarrow>
          (case map_of cm (Sprintf_04X (of_char b)) of
             Some val \<Rightarrow> val @ decodeWithCMap cm (b' # rest)
           | None \<Rightarrow> string_of_byte b @ decodeWithCMap cm (b' # rest)))"

text \<open>Lines 312-338: the local variable \<^verbatim>\<open>decoded\<close>.\<close>

definition decodeText :: "'f TextState \<Rightarrow> string \<Rightarrow> string" where
  "decodeText ts rawBytes =
     (case Font ts of
        None \<Rightarrow> rawBytes
      | Some f \<Rightarrow>
          (case CMap f of
             None \<Rightarrow> rawBytes
           | Some c \<Rightarrow>
               if length (Map c) > 0 then decodeWithCMap (Map c) rawBytes else rawBytes))"

text \<open>Lines 347-358: the sum of the glyph widths, from \<^verbatim>\<open>totalWidth := 0.0\<close> on.\<close>

fun sumWidths :: "'f arith \<Rightarrow> 'f Font \<Rightarrow> string \<Rightarrow> 'f \<Rightarrow> 'f" where
  "sumWidths ar f [] totalWidth = totalWidth"
| "sumWidths ar f (b # rest) totalWidth =
     sumWidths ar f rest
       (f_add ar totalWidth
          (case map_of (Widths f) (of_char b) of Some val \<Rightarrow> val | None \<Rightarrow> MissingW f))"

text \<open>Line 376: \<^verbatim>\<open>float64(len(decoded)) * FontSize * 0.5 * (Scale / 100.0)\<close>.\<close>

definition heuristicWidth :: "'f arith \<Rightarrow> 'f TextState \<Rightarrow> string \<Rightarrow> 'f" where
  "heuristicWidth ar ts decoded =
     f_mul ar
       (f_mul ar (f_mul ar (f_lit ar (real (length decoded))) (FontSize ts)) (f_lit ar 0.5))
       (f_div ar (Scale ts) (f_lit ar 100))"

text \<open>Lines 343-377: the local variable \<^verbatim>\<open>totalWidth\<close>, through its four assignments
  \<^verbatim>\<open>totalWidth = (totalWidth / 1000.0) * FontSize\<close>,
  \<^verbatim>\<open>totalWidth += float64(len(rawBytes)) * CharSpacing\<close>,
  \<^verbatim>\<open>totalWidth += float64(spaceCount) * WordSpacing\<close> and
  \<^verbatim>\<open>totalWidth *= (Scale / 100.0)\<close>; \<^verbatim>\<open>strings.Count(decoded, " ")\<close> is the number of
  space bytes.\<close>

definition totalWidth :: "'f arith \<Rightarrow> 'f TextState \<Rightarrow> string \<Rightarrow> string \<Rightarrow> 'f" where
  "totalWidth ar ts rawBytes decoded =
     (case Font ts of
        None \<Rightarrow> heuristicWidth ar ts decoded
      | Some f \<Rightarrow>
          if length (Widths f) > 0 then
            f_mul ar
              (f_add ar
                 (f_add ar
                    (f_mul ar (f_div ar (sumWidths ar f rawBytes (f_lit ar 0)) (f_lit ar 1000))
                       (FontSize ts))
                    (f_mul ar (f_lit ar (real (length rawBytes))) (CharSpacing ts)))
                 (f_mul ar (f_lit ar (real (count_list decoded (CHR '' '')))) (WordSpacing ts)))
              (f_div ar (Scale ts) (f_lit ar 100))
          else heuristicWidth ar ts decoded)"

definition handleText :: "'f arith \<Rightarrow> 'f Extractor \<Rightarrow> 'f Object \<Rightarrow> 'f Extractor" where
  "handleText ar e obj =
     (case rawBytes_of obj of
        None \<Rightarrow> e
      | Some rawBytes \<Rightarrow>
          (let ts = textState e;
               fm = Mult ar (TM ts) (CTM (gState e));
               x = m4 fm;
               y = m5 fm;
               decoded = decodeText ts rawBytes;
               w = totalWidth ar ts rawBytes decoded
           in e\<lparr>buffer := detectSpacing ar e x y @ decoded,
                lastX := f_add ar x w,
                lastY := y,
                textState := ts\<lparr>TM := (TM ts)\<lparr>m4 := f_add ar (m4 (TM ts)) (f_mul ar w (m0 (TM ts))),
                                               m5 := f_add ar (m5 (TM ts)) (f_mul ar w (m1 (TM ts)))\<rparr>\<rparr>\<rparr>))"

section \<open>The operator interpreter: processOp\<close>

text \<open>Lines 240-249: one element of a \<^verbatim>\<open>TJ\<close> array; the shift is
  \<^verbatim>\<open>-float64(numObj) / 1000.0 * FontSize * (Scale / 100.0)\<close>.\<close>

definition TJ_element :: "'f arith \<Rightarrow> 'f Object \<Rightarrow> 'f Extractor \<Rightarrow> 'f Extractor" where
  "TJ_element ar obj e =
     (case obj of
        NumberObject numObj \<Rightarrow>
          (let ts = textState e;
               shift = f_mul ar
                         (f_mul ar (f_div ar (f_neg ar numObj) (f_lit ar 1000)) (FontSize ts))
                         (f_div ar (Scale ts) (f_lit ar 100))
           in e\<lparr>textState := ts\<lparr>TM := (TM ts)\<lparr>m4 := f_add ar (m4 (TM ts)) (f_mul ar shift (m0 (TM ts))),
                                               m5 := f_add ar (m5 (TM ts)) (f_mul ar shift (m1 (TM ts)))\<rparr>\<rparr>\<rparr>)
      | _ \<Rightarrow> handleText ar e obj)"

text \<open>\<^verbatim>\<open>Matrix{1, 0, 0, 1, tx, ty}\<close>.\<close>

definition translate :: "'f arith \<Rightarrow> 'f \<Rightarrow> 'f \<Rightarrow> 'f Matrix" where
  "translate ar tx ty =
     \<lparr>m0 = f_lit ar 1, m1 = f_lit ar 0, m2 = f_lit ar 0, m3 = f_lit ar 1, m4 = tx, m5 = ty\<rparr>"

text \<open>\<^verbatim>\<open>op.Operands[i]\<close>: an index past the end is a run-time panic.\<close>

definition operand :: "'f Operation \<Rightarrow> nat \<Rightarrow> fault + 'f Object" where
  "operand op i =
     (if i < length (Operands op) then Inr (Operands op ! i)
      else Inl (Panic ''index out of range''))"

function processOp :: "'f arith \<Rightarrow> 'f Extractor \<Rightarrow> 'f Operation \<Rightarrow> fault + 'f Extractor" where
  "processOp ar e op =
    (if Operator op = ''q'' then
       Inr (e\<lparr>gStack := gStack e @ [gState e]\<rparr>)
     else if Operator op = ''Q'' then
       (if length (gStack e) > 0
        then Inr (e\<lparr>gState := last (gStack e), gStack := butlast (gStack e)\<rparr>)
        else Inr e)
     else if Operator op = ''cm'' then
       (if length (Operands op) = 6
        then Inr (e\<lparr>gState := (gState e)\<lparr>CTM := Mult ar (argsToMatrix ar (Operands op)) (CTM (gState e))\<rparr>\<rparr>)
        else Inr e)
     else if Operator op = ''BT'' then
       Inr (e\<lparr>textState := (textState e)\<lparr>TM := IdentityMatrix ar, TLM := IdentityMatrix ar\<rparr>\<rparr>)
     else if Operator op = ''Tc'' then
       (case operand op 0 of Inl p \<Rightarrow> Inl p
        | Inr a \<Rightarrow> Inr (e\<lparr>textState := (textState e)\<lparr>CharSpacing := number ar a\<rparr>\<rparr>))
     else if Operator op = ''Tw'' then
       (case operand op 0 of Inl p \<Rightarrow> Inl p
        | Inr a \<Rightarrow> Inr (e\<lparr>textState := (textState e)\<lparr>WordSpacing := number ar a\<rparr>\<rparr>))
     else if Operator op = ''Tz'' then
       (case operand op 0 of Inl p \<Rightarrow> Inl p
        | Inr a \<Rightarrow> Inr (e\<lparr>textState := (textState e)\<lparr>Scale := number ar a\<rparr>\<rparr>))
     else if Operator op = ''TL'' then
       (case operand op 0 of Inl p \<Rightarrow> Inl p
        | Inr a \<Rightarrow> Inr (e\<lparr>textState := (textState e)\<lparr>Leading := number ar a\<rparr>\<rparr>))
     else if Operator op = ''Tf'' then
       (case operand op 0 of Inl p \<Rightarrow> Inl p
        | Inr a \<Rightarrow>
           (let e1 = (case a of
                        NameObject name \<Rightarrow>
                          (case map_of (fonts e) name of
                             Some font \<Rightarrow> e\<lparr>textState := (textState e)\<lparr>Font := Some font\<rparr>\<rparr>
                           | None \<Rightarrow> e)
                      | _ \<Rightarrow> e)
            in case operand op 1 of Inl p \<Rightarrow> Inl p
               | Inr b \<Rightarrow> Inr (e1\<lparr>textState := (textState e1)\<lparr>FontSize := number ar b\<rparr>\<rparr>)))
     else if Operator op = ''Td'' then
       (case operand op 0 of Inl p \<Rightarrow> Inl p
        | Inr a \<Rightarrow>
           (case operand op 1 of Inl p \<Rightarrow> Inl p
            | Inr b \<Rightarrow>
               (let tlm = Mult ar (translate ar (number ar a) (number ar b)) (TLM (textState e))
                in Inr (e\<lparr>textState := (textState e)\<lparr>TLM := tlm, TM := tlm\<rparr>\<rparr>))))
     else if Operator op = ''TD'' then
       (case operand op 0 of Inl p \<Rightarrow> Inl p
        | Inr a \<Rightarrow>
           (case operand op 1 of Inl p \<Rightarrow> Inl p
            | Inr b \<Rightarrow>
               (let tlm = Mult ar (translate ar (number ar a) (number ar b)) (TLM (textState e))
                in Inr (e\<lparr>textState := (textState e)\<lparr>Leading := f_neg ar (number ar b),
                                                      TLM := tlm, TM := tlm\<rparr>\<rparr>))))
     else if Operator op = ''Tm'' then
       (if length (Operands op) = 6
        then Inr (e\<lparr>textState := (textState e)\<lparr>TM := argsToMatrix ar (Operands op),
                                                  TLM := argsToMatrix ar (Operands op)\<rparr>\<rparr>)
        else Inr e)
     else if Operator op = ''T*'' then
       (let tlm = Mult ar (translate ar (f_lit ar 0) (f_neg ar (Leading (textState e))))
                    (TLM (textState e))
        in Inr (e\<lparr>textState := (textState e)\<lparr>TLM := tlm, TM := tlm\<rparr>\<rparr>))
     else if Operator op = ''Tj'' then
       (if length (Operands op) > 0 then Inr (handleText ar e (Operands op ! 0)) else Inr e)
     else if Operator op = ''TJ'' then
       (case operand op 0 of Inl p \<Rightarrow> Inl p
        | Inr a \<Rightarrow>
           (case a of
              ArrayObject arr \<Rightarrow> Inr (fold (TJ_element ar) arr e)
            | _ \<Rightarrow> Inr e))
     else if Operator op = [CHR 0x27] then
       (case processOp ar e \<lparr>Operator = ''T*'', Operands = []\<rparr> of Inl p \<Rightarrow> Inl p
        | Inr e1 \<Rightarrow> processOp ar e1 \<lparr>Operator = ''Tj'', Operands = Operands op\<rparr>)
     else if Operator op = [CHR 0x22] then
       (case operand op 0 of Inl p \<Rightarrow> Inl p
        | Inr a \<Rightarrow>
           (case operand op 1 of Inl p \<Rightarrow> Inl p
            | Inr b \<Rightarrow>
               (case processOp ar (e\<lparr>textState := (textState e)\<lparr>WordSpacing := number ar a,
                                                                   CharSpacing := number ar b\<rparr>\<rparr>)
                       \<lparr>Operator = ''T*'', Operands = []\<rparr> of Inl p \<Rightarrow> Inl p
                | Inr e1 \<Rightarrow>
                    processOp ar e1 \<lparr>Operator = ''Tj'', Operands = drop 2 (Operands op)\<rparr>)))
     else Inr e)"
  by pat_completeness auto
termination
  by (relation "measure (\<lambda>(ar, e, op). if Operator op = [CHR 0x27] \<or> Operator op = [CHR 0x22] then 1 else 0)")
     auto

declare processOp.simps [simp del]
declare hexDigits.simps [simp del]

text \<open>ExtractText, lines 174-176: the loop that feeds the operations of one stream to
  \<open>processOp\<close>.\<close>

fun processOps :: "'f arith \<Rightarrow> 'f Extractor \<Rightarrow> 'f Operation list \<Rightarrow> fault + 'f Extractor" where
  "processOps ar e [] = Inr e"
| "processOps ar e (op # ops) =
     (case processOp ar e op of Inl p \<Rightarrow> Inl p | Inr e1 \<Rightarrow> processOps ar e1 ops)"

text \<open>NewExtractor, lines 84-90: the extractor before the fonts are loaded.\<close>

definition newExtractorState :: "'f arith \<Rightarrow> 'f Dictionary \<Rightarrow> 'f Extractor" where
  "newExtractorState ar pg =
     \<lparr>page = pg, gState = \<lparr>CTM = IdentityMatrix ar\<rparr>, gStack = [], textState = NewTextState ar,
      fonts = [], lastX = f_lit ar 0, lastY = f_lit ar 0, buffer = []\<rparr>"

section \<open>External collaborators\<close>

text \<open>
  The lexer (\<^verbatim>\<open>Lexer\<close>), the reader (\<^verbatim>\<open>Reader\<close>) and the CMap parser (\<^verbatim>\<open>ParseCMap\<close>) are
  not among the sources; the functions below take them as arguments. A lexer works on a
  \<^verbatim>\<open>bufio.Reader\<close> over the bytes of a stream: its state is the input not yet read, and
  \<^verbatim>\<open>ReadObject\<close> returns its result together with the input left.
\<close>

record 'f Lexer =
  skipWhitespace :: "string \<Rightarrow> string"
  ReadObject :: "string \<Rightarrow> (fault + 'f Object) \<times> string"

record 'f Reader =
  NumPages :: int
  GetInfo :: "fault + 'f Dictionary option"
  GetPage :: "int \<Rightarrow> fault + 'f Dictionary"
  Resolve :: "'f Object \<Rightarrow> 'f Object"

record 'f Externals =
  Open :: "string \<Rightarrow> fault + string"
  NewReader :: "string \<Rightarrow> fault + 'f Reader"
  lexerOps :: "'f Lexer"
  ParseCMap :: "string \<Rightarrow> fault + CMap"

text \<open>Modelled from the spec: \<^verbatim>\<open>isWhitespace\<close> and \<^verbatim>\<open>isDelimiter\<close> of the lexer, which is
  not among the sources. Section 4.1: whitespace is NUL, TAB, LF, FF, CR and SPACE, a
  delimiter is one of \<^verbatim>\<open>()<>[]{}/%\<close>.\<close>

definition isWhitespace :: "char \<Rightarrow> bool" where
  "isWhitespace b = (b \<in> set [CHR 0x00, CHR 0x09, CHR 0x0A, CHR 0x0C, CHR 0x0D, CHR 0x20])"

definition isDelimiter :: "char \<Rightarrow> bool" where
  "isDelimiter b = (b \<in> set ''()<>[]{}/%'')"

text \<open>\<^verbatim>\<open>io.EOF\<close>.\<close>

definition EOF :: fault where
  "EOF = Failure ''EOF''"

text \<open>Type assertions \<^verbatim>\<open>x.(KeywordObject)\<close>, \<^verbatim>\<open>x.(DictionaryObject)\<close>, \<^verbatim>\<open>x.(StreamObject)\<close>,
  \<^verbatim>\<open>x.(StringObject)\<close>.\<close>

definition keyword_of :: "'f Object \<Rightarrow> string option" where
  "keyword_of obj = (case obj of KeywordObject kw \<Rightarrow> Some kw | _ \<Rightarrow> None)"

definition dict_of :: "'f Object \<Rightarrow> 'f Dictionary option" where
  "dict_of obj = (case obj of DictionaryObject d \<Rightarrow> Some d | _ \<Rightarrow> None)"

definition stream_of :: "'f Object \<Rightarrow> ('f Dictionary \<times> string) option" where
  "stream_of obj = (case obj of StreamObject d data \<Rightarrow> Some (d, data) | _ \<Rightarrow> None)"

definition string_of :: "'f Object \<Rightarrow> string option" where
  "string_of obj = (case obj of StringObject s \<Rightarrow> Some s | _ \<Rightarrow> None)"

section \<open>The content-stream parser (pkg/pdf/content.go)\<close>

subsection \<open>Parse (lines 27-61)\<close>

text \<open>The loop of \<^verbatim>\<open>Parse\<close>. It ends when the lexer reaches the end of the input or fails;
  with a lexer that reads without consuming it does not end, which is the value \<open>None\<close>.\<close>

partial_function (option) Parse_loop ::
  "'f Lexer \<Rightarrow> string \<Rightarrow> 'f Operation list \<Rightarrow> 'f Object list \<Rightarrow> (fault + 'f Operation list) option" where
  "Parse_loop lx inp operations operands' =
     (if skipWhitespace lx inp = [] then Some (Inr operations)
      else
        (case ReadObject lx (skipWhitespace lx inp) of
           (Inl (Panic m), inp') \<Rightarrow> Some (Inl (Panic m))
         | (Inl (Failure err), inp') \<Rightarrow> Some (Inl (Failure (''failed to read object: '' @ err)))
         | (Inr obj, inp') \<Rightarrow>
             (case keyword_of obj of
                Some kw \<Rightarrow>
                  Parse_loop lx inp' (operations @ [\<lparr>Operator = kw, Operands = operands'\<rparr>]) []
              | None \<Rightarrow> Parse_loop lx inp' operations (operands' @ [obj]))))"

definition Parse :: "'f Lexer \<Rightarrow> string \<Rightarrow> (fault + 'f Operation list) option" where
  "Parse lx data = Parse_loop lx data [] []"

subsection \<open>Next and skipInlineImage (lines 77-215)\<close>

record 'f ContentStreamParser =
  lexer :: string
  operands :: "'f Object list"
  eof :: bool

definition NewContentStreamParser :: "string \<Rightarrow> 'f ContentStreamParser" where
  "NewContentStreamParser data = \<lparr>lexer = data, operands = [], eof = False\<rparr>"

text \<open>Lines 146-172: the image dictionary, read up to the keyword \<^verbatim>\<open>ID\<close>.\<close>

partial_function (option) readImageDict ::
  "'f Lexer \<Rightarrow> string \<Rightarrow> 'f Dictionary \<Rightarrow> ((fault + 'f Dictionary) \<times> string) option" where
  "readImageDict lx inp imageDict =
     (case ReadObject lx (skipWhitespace lx inp) of
        (Inl err, inp1) \<Rightarrow> Some (Inl err, inp1)
      | (Inr obj, inp1) \<Rightarrow>
          if obj = KeywordObject ''ID'' then Some (Inr imageDict, inp1)
          else
            (case obj of
               NameObject key \<Rightarrow>
                 (case ReadObject lx (skipWhitespace lx inp1) of
                    (Inl err, inp2) \<Rightarrow> Some (Inl err, inp2)
                  | (Inr val, inp2) \<Rightarrow> readImageDict lx inp2 (AList.update key val imageDict))
             | _ \<Rightarrow> Some (Inl (Failure ''expected name in inline image dict''), inp1)))"

text \<open>Lines 178-190: one end-of-line sequence after \<^verbatim>\<open>ID\<close>; a byte that is neither CR
  nor LF is put back.\<close>

definition consumeEOL :: "string \<Rightarrow> fault option \<times> string" where
  "consumeEOL inp =
     (case inp of
        [] \<Rightarrow> (Some EOF, [])
      | b # rest \<Rightarrow>
          if b = CHR 0x0D then
            (case rest of
               [] \<Rightarrow> (None, rest)
             | next' # rest' \<Rightarrow> if next' = CHR 0x0A then (None, rest') else (None, rest))
          else if b \<noteq> CHR 0x0A then (None, b # rest)
          else (None, rest))"

text \<open>Lines 194-214: the scan for the marker \<^verbatim>\<open>EI\<close>. Each equation is one turn of the loop:
  \<^verbatim>\<open>ReadByte\<close> takes \<open>b\<close>, \<^verbatim>\<open>Peek(1)\<close> looks at the byte after it.\<close>

fun scanEI :: "string \<Rightarrow> fault option \<times> string" where
  "scanEI [] = (Some EOF, [])"
| "scanEI [b] = scanEI []"
| "scanEI (b # next' # rest) =
     (if b = CHR ''E'' \<and> next' = CHR ''I'' then
        (case rest of
           [] \<Rightarrow> (None, rest)
         | after # _ \<Rightarrow>
             if isWhitespace after \<or> isDelimiter after then (None, rest) else scanEI rest)
      else scanEI (next' # rest))"

definition skipInlineImage ::
  "'f Lexer \<Rightarrow> 'f ContentStreamParser \<Rightarrow> (fault option \<times> 'f ContentStreamParser) option" where
  "skipInlineImage lx p =
     (case readImageDict lx (lexer p) [] of
        None \<Rightarrow> None
      | Some (Inl err, inp1) \<Rightarrow> Some (Some err, p\<lparr>lexer := inp1\<rparr>)
      | Some (Inr imageDict, inp1) \<Rightarrow>
          (case consumeEOL inp1 of
             (Some err, inp2) \<Rightarrow>
               Some (Some err, p\<lparr>lexer := inp2, operands := [DictionaryObject imageDict]\<rparr>)
           | (None, inp2) \<Rightarrow>
               Some (fst (scanEI inp2),
                     p\<lparr>lexer := snd (scanEI inp2), operands := [DictionaryObject imageDict]\<rparr>)))"

text \<open>Lines 96-138: the loop of \<^verbatim>\<open>Next\<close>.\<close>

partial_function (option) Next_loop ::
  "'f Lexer \<Rightarrow> 'f ContentStreamParser \<Rightarrow> ((fault + 'f Operation) \<times> 'f ContentStreamParser) option" where
  "Next_loop lx p =
     (if skipWhitespace lx (lexer p) = [] then Some (Inl EOF, p\<lparr>lexer := [], eof := True\<rparr>)
      else
        (case ReadObject lx (skipWhitespace lx (lexer p)) of
           (Inl (Panic m), inp') \<Rightarrow> Some (Inl (Panic m), p\<lparr>lexer := inp'\<rparr>)
         | (Inl (Failure err), inp') \<Rightarrow>
             Some (Inl (Failure (''failed to read object: '' @ err)), p\<lparr>lexer := inp'\<rparr>)
         | (Inr obj, inp') \<Rightarrow>
             (case keyword_of obj of
                Some kw \<Rightarrow>
                  if kw = ''BI'' then
                    (case skipInlineImage lx (p\<lparr>lexer := inp'\<rparr>) of
                       None \<Rightarrow> None
                     | Some (Some err, p1) \<Rightarrow> Some (Inl err, p1)
                     | Some (None, p1) \<Rightarrow>
                         Some (Inr \<lparr>Operator = ''INLINE_IMAGE'', Operands = operands p1\<rparr>,
                               p1\<lparr>operands := []\<rparr>))
                  else
                    Some (Inr \<lparr>Operator = kw, Operands = operands p\<rparr>,
                          p\<lparr>lexer := inp', operands := []\<rparr>)
              | None \<Rightarrow> Next_loop lx (p\<lparr>lexer := inp', operands := operands p @ [obj]\<rparr>))))"

definition Next ::
  "'f Lexer \<Rightarrow> 'f ContentStreamParser \<Rightarrow> ((fault + 'f Operation) \<times> 'f ContentStreamParser) option" where
  "Next lx p = (if eof p then Some (Inl EOF, p) else Next_loop lx p)"

section \<open>Building the extractor and extracting a page\<close>

text \<open>loadFont, lines 122-126: the loop over the \<^verbatim>\<open>/Widths\<close> array, \<open>i\<close> the index.\<close>

fun loadWidths :: "int \<Rightarrow> int \<Rightarrow> 'f Object list \<Rightarrow> (int \<times> 'f) list \<Rightarrow> (int \<times> 'f) list" where
  "loadWidths first i [] ws = ws"
| "loadWidths first i (wObj # rest) ws =
     loadWidths first (i + 1) rest
       (case wObj of NumberObject w \<Rightarrow> AList.update (first + i) w ws | _ \<Rightarrow> ws)"

text \<open>loadFont, lines 106-151; \<^verbatim>\<open>int(firstObj)\<close> is the conversion \<open>f_int\<close>. A
  ToUnicode stream that \<^verbatim>\<open>ParseCMap\<close> rejects leaves the CMap pointer \<^verbatim>\<open>nil\<close>;
  \<^verbatim>\<open>NewCMap()\<close> is the empty map.\<close>

definition loadFont :: "'f arith \<Rightarrow> 'f Externals \<Rightarrow> 'f Reader \<Rightarrow> 'f Dictionary \<Rightarrow> fault + 'f Font" where
  "loadFont ar x rd obj =
     (let baseFont = (case Resolve rd (index_dict obj ''/BaseFont'') of
                        NameObject bf \<Rightarrow> bf | _ \<Rightarrow> []);
          firstChar = (case Resolve rd (index_dict obj ''/FirstChar'') of
                         NumberObject firstObj \<Rightarrow> Some (f_int ar firstObj) | _ \<Rightarrow> None);
          widths = (case firstChar of
                      None \<Rightarrow> []
                    | Some first \<Rightarrow>
                        (case Resolve rd (index_dict obj ''/Widths'') of
                           ArrayObject ws \<Rightarrow> loadWidths first 0 ws []
                         | _ \<Rightarrow> []));
          f = \<lparr>BaseFont = baseFont, CMap = None, Widths = widths, MissingW = f_lit ar 0,
               SpaceWidth = (case map_of widths 32 of Some w \<Rightarrow> w | None \<Rightarrow> f_lit ar 250),
               IsCID = (firstChar = None)\<rparr>
      in case stream_of (Resolve rd (index_dict obj ''/ToUnicode'')) of
           Some (d, data) \<Rightarrow>
             (case ParseCMap x data of
                Inr cmap \<Rightarrow> Inr (f\<lparr>CMap := Some cmap\<rparr>)
              | Inl (Failure err) \<Rightarrow> Inr f
              | Inl (Panic m) \<Rightarrow> Inl (Panic m))
         | None \<Rightarrow> Inr (f\<lparr>CMap := Some \<lparr>Map = []\<rparr>\<rparr>))"

text \<open>NewExtractor, lines 95-98: the loop over the entries of \<^verbatim>\<open>/Font\<close>. The unchecked
  type assertion \<^verbatim>\<open>r.Resolve(ref).(DictionaryObject)\<close> panics on any other object.\<close>

fun loadFonts ::
  "'f arith \<Rightarrow> 'f Externals \<Rightarrow> 'f Reader \<Rightarrow> 'f Dictionary \<Rightarrow> (string \<times> 'f Font) list \<Rightarrow> fault + (string \<times> 'f Font) list" where
  "loadFonts ar x rd [] fs = Inr fs"
| "loadFonts ar x rd ((name, ref) # rest) fs =
     (case dict_of (Resolve rd ref) of
        None \<Rightarrow> Inl (Panic ''interface conversion'')
      | Some fontObj \<Rightarrow>
          (case loadFont ar x rd fontObj of
             Inl p \<Rightarrow> Inl p
           | Inr f \<Rightarrow> loadFonts ar x rd rest (AList.update name f fs)))"

text \<open>NewExtractor, lines 83-103.\<close>

definition NewExtractor :: "'f arith \<Rightarrow> 'f Externals \<Rightarrow> 'f Reader \<Rightarrow> 'f Dictionary \<Rightarrow> fault + 'f Extractor" where
  "NewExtractor ar x rd pg =
     (case dict_of (Resolve rd (index_dict pg ''/Resources'')) of
        None \<Rightarrow> Inr (newExtractorState ar pg)
      | Some res \<Rightarrow>
          (case dict_of (Resolve rd (index_dict res ''/Font'')) of
             None \<Rightarrow> Inr (newExtractorState ar pg)
           | Some fontDict \<Rightarrow>
               (case loadFonts ar x rd fontDict [] of
                  Inl p \<Rightarrow> Inl p
                | Inr fs \<Rightarrow> Inr ((newExtractorState ar pg)\<lparr>fonts := fs\<rparr>))))"

text \<open>ExtractText, lines 155-166: the streams of \<^verbatim>\<open>/Contents\<close>, in order.\<close>

definition contentStreams :: "'f Reader \<Rightarrow> 'f Object \<Rightarrow> ('f Dictionary \<times> string) list" where
  "contentStreams rd contents =
     (case contents of
        ArrayObject arr \<Rightarrow> List.map_filter (\<lambda>ref. stream_of (Resolve rd ref)) arr
      | StreamObject d data \<Rightarrow> [(d, data)]
      | _ \<Rightarrow> [])"

text \<open>ExtractText, lines 168-177: each stream is parsed and its operations are run.\<close>

fun runStreams ::
  "'f arith \<Rightarrow> 'f Lexer \<Rightarrow> 'f Extractor \<Rightarrow> ('f Dictionary \<times> string) list \<Rightarrow> (fault + 'f Extractor) option" where
  "runStreams ar lx e [] = Some (Inr e)"
| "runStreams ar lx e ((d, data) # rest) =
     (case Parse lx data of
        None \<Rightarrow> None
      | Some (Inl err) \<Rightarrow> Some (Inl err)
      | Some (Inr ops) \<Rightarrow>
          (case processOps ar e ops of
             Inl p \<Rightarrow> Some (Inl p)
           | Inr e1 \<Rightarrow> runStreams ar lx e1 rest))"

definition ExtractText :: "'f arith \<Rightarrow> 'f Externals \<Rightarrow> 'f Reader \<Rightarrow> 'f Extractor \<Rightarrow> (fault + string) option" where
  "ExtractText ar x rd e =
     (case runStreams ar (lexerOps x) e
             (contentStreams rd (Resolve rd (index_dict (page e) ''/Contents''))) of
        None \<Rightarrow> None
      | Some (Inl err) \<Rightarrow> Some (Inl err)
      | Some (Inr e1) \<Rightarrow> Some (Inr (buffer e1)))"

section \<open>The loader (pkg/model/types.go, pkg/loader/loader.go)\<close>

record Metadata =
  Title :: string
  Author :: string
  Creator :: string
  Producer :: string
  Encrypted :: bool

record 'f Page =
  PageNumber :: int
  Content :: string
  CharCount :: int
  Width :: 'f
  Height :: 'f

record 'f Document =
  Metadata :: Metadata
  Pages :: "'f Page list"

text \<open>LoadPDF, lines 28-42.\<close>

definition info_string :: "'f Dictionary \<Rightarrow> string \<Rightarrow> string" where
  "info_string info k = (case string_of (index_dict info k) of Some t \<Rightarrow> t | None \<Rightarrow> [])"

definition loadMetadata :: "'f Reader \<Rightarrow> Metadata" where
  "loadMetadata rd =
     (case GetInfo rd of
        Inr (Some info) \<Rightarrow>
          \<lparr>Title = info_string info ''/Title'', Author = info_string info ''/Author'',
           Creator = info_string info ''/Creator'', Producer = info_string info ''/Producer'',
           Encrypted = False\<rparr>
      | _ \<Rightarrow> \<lparr>Title = [], Author = [], Creator = [], Producer = [], Encrypted = False\<rparr>)"

text \<open>LoadPDF, lines 78-88: width and height from \<^verbatim>\<open>/MediaBox\<close>.\<close>

definition mediaBox :: "'f arith \<Rightarrow> 'f Dictionary \<Rightarrow> 'f \<times> 'f" where
  "mediaBox ar pdfPage =
     (case index_dict pdfPage ''/MediaBox'' of
        ArrayObject mBox \<Rightarrow>
          if length mBox = 4 then
            ((case mBox ! 2 of NumberObject w \<Rightarrow> w | _ \<Rightarrow> f_lit ar 0),
             (case mBox ! 3 of NumberObject h \<Rightarrow> h | _ \<Rightarrow> f_lit ar 0))
          else (f_lit ar 0, f_lit ar 0)
      | _ \<Rightarrow> (f_lit ar 0, f_lit ar 0))"

text \<open>LoadPDF, lines 54-96: the body of the page loop for the index \<open>i\<close>. \<open>Inr\<close> is the page
  record that is appended; \<open>Inl (Failure err)\<close> is a returned error, after which the loop
  goes on with \<^verbatim>\<open>continue\<close>. The lines printed on the way are left out.\<close>

definition loadPage :: "'f arith \<Rightarrow> 'f Externals \<Rightarrow> 'f Reader \<Rightarrow> int \<Rightarrow> (fault + 'f Page) option" where
  "loadPage ar x rd i =
     (case GetPage rd i of
        Inl err \<Rightarrow> Some (Inl err)
      | Inr pdfPage \<Rightarrow>
          (case NewExtractor ar x rd pdfPage of
             Inl err \<Rightarrow> Some (Inl err)
           | Inr extractor \<Rightarrow>
               (case ExtractText ar x rd extractor of
                  None \<Rightarrow> None
                | Some (Inl err) \<Rightarrow> Some (Inl err)
                | Some (Inr text) \<Rightarrow>
                    Some (Inr \<lparr>PageNumber = i + 1, Content = text,
                               CharCount = int (length text),
                               Width = fst (mediaBox ar pdfPage),
                               Height = snd (mediaBox ar pdfPage)\<rparr>))))"

text \<open>LoadPDF, lines 53-99: the page loop from the index \<open>i\<close> on. A panic ends the run.\<close>

function loadPages ::
  "'f arith \<Rightarrow> 'f Externals \<Rightarrow> 'f Reader \<Rightarrow> int \<Rightarrow> 'f Page list \<Rightarrow> (fault + 'f Page list) option" where
  "loadPages ar x rd i pages =
     (if i < NumPages rd then
        (case loadPage ar x rd i of
           None \<Rightarrow> None
         | Some (Inl (Panic m)) \<Rightarrow> Some (Inl (Panic m))
         | Some (Inl (Failure err)) \<Rightarrow> loadPages ar x rd (i + 1) pages
         | Some (Inr pg) \<Rightarrow> loadPages ar x rd (i + 1) (pages @ [pg]))
      else Some (Inr pages))"
  by pat_completeness auto
termination
  by (relation "measure (\<lambda>(ar, x, rd, i, pages). nat (NumPages rd - i))") auto

declare loadPages.simps [simp del]

text \<open>LoadPDF, lines 13-102. \<^verbatim>\<open>make([]model.Page, 0, n)\<close> panics for a negative \<open>n\<close>.\<close>

definition LoadPDF :: "'f arith \<Rightarrow> 'f Externals \<Rightarrow> string \<Rightarrow> (fault + 'f Document) option" where
  "LoadPDF ar x path =
     (case Open x path of
        Inl err \<Rightarrow> Some (Inl err)
      | Inr f \<Rightarrow>
          (case NewReader x f of
             Inl (Failure err) \<Rightarrow> Some (Inl (Failure (''failed to create pdf reader: '' @ err)))
           | Inl (Panic m) \<Rightarrow> Some (Inl (Panic m))
           | Inr rd \<Rightarrow>
               if NumPages rd < 0 then Some (Inl (Panic ''makeslice: cap out of range''))
               else
                 (case loadPages ar x rd 0 [] of
                    None \<Rightarrow> None
                  | Some (Inl err) \<Rightarrow> Some (Inl err)
                  | Some (Inr pages) \<Rightarrow>
                      Some (Inr \<lparr>Metadata = loadMetadata rd, Pages = pages\<rparr>))))"

section \<open>Predicates and inputs used to state the properties\<close>

subsection \<open>Bracketing of operation sequences\<close>

text \<open>The nested \<^verbatim>\<open>q\<close>/\<^verbatim>\<open>Q\<close> count of an operation sequence read at depth \<open>d\<close> is
  balanced: no \<^verbatim>\<open>Q\<close> closes more than was opened, and every \<^verbatim>\<open>q\<close> is closed at the
  end.\<close>

fun balanced :: "nat \<Rightarrow> 'f Operation list \<Rightarrow> bool" where
  "balanced d [] = (d = 0)"
| "balanced d (op # ops) =
     (if Operator op = ''q'' then balanced (Suc d) ops
      else if Operator op = ''Q'' then d > 0 \<and> balanced (d - 1) ops
      else balanced d ops)"

text \<open>Balanced, and every \<^verbatim>\<open>cm\<close> stands inside an open \<^verbatim>\<open>q\<close>/\<^verbatim>\<open>Q\<close> pair.\<close>

fun bracketed :: "nat \<Rightarrow> 'f Operation list \<Rightarrow> bool" where
  "bracketed d [] = (d = 0)"
| "bracketed d (op # ops) =
     (if Operator op = ''q'' then bracketed (Suc d) ops
      else if Operator op = ''Q'' then d > 0 \<and> bracketed (d - 1) ops
      else if Operator op = ''cm'' then d > 0 \<and> bracketed d ops
      else bracketed d ops)"

subsection \<open>The advance width and the separator, as the specification words them\<close>





text \<open>The space width of a known font in user space,
  \<open>(space_width / 1000) \<times> size \<times> (scale/100)\<close>, in \<^verbatim>\<open>float64\<close> arithmetic. Here and
  below each product is written with its factors in the order of the source
  (\<open>size \<times> 0.2\<close> for \<open>0.2 \<times> size\<close>).\<close>

definition user_space_width :: "'f arith \<Rightarrow> 'f Font \<Rightarrow> 'f TextState \<Rightarrow> 'f" where
  "user_space_width ar f ts =
     f_mul ar (f_mul ar (f_div ar (SpaceWidth f) (f_lit ar 1000)) (FontSize ts))
       (f_div ar (Scale ts) (f_lit ar 100))"

text \<open>The threshold as claim C2 words it: half the space width in user space when the
  font is known, \<open>0.2 \<times> size\<close> when the font is unknown or the space width is 0.\<close>

definition claimed_threshold :: "'f arith \<Rightarrow> 'f TextState \<Rightarrow> 'f" where
  "claimed_threshold ar ts =
     (case Font ts of
        None \<Rightarrow> f_mul ar (FontSize ts) (f_lit ar 0.2)
      | Some f \<Rightarrow>
          if user_space_width ar f ts = f_lit ar 0 then f_mul ar (FontSize ts) (f_lit ar 0.2)
          else f_mul ar (user_space_width ar f ts) (f_lit ar 0.5))"

text \<open>The threshold of the amended claim: half the space width in user space when the
  font is known and that width is greater than 0, \<open>0.2 \<times> size\<close> otherwise.\<close>

definition amended_threshold :: "'f arith \<Rightarrow> 'f TextState \<Rightarrow> 'f" where
  "amended_threshold ar ts =
     (case Font ts of
        None \<Rightarrow> f_mul ar (FontSize ts) (f_lit ar 0.2)
      | Some f \<Rightarrow>
          if f_gt ar (user_space_width ar f ts) (f_lit ar 0)
          then f_mul ar (user_space_width ar f ts) (f_lit ar 0.5)
          else f_mul ar (FontSize ts) (f_lit ar 0.2))"

text \<open>What claim C2 says is appended before the decoded text of a string that starts at
  \<open>(x, y)\<close>, for a threshold \<open>thr\<close>: a newline if \<open>|y - last_y| > size \<times> 0.5\<close> and the
  buffer is not empty; otherwise a single space if \<open>x - last_x > thr\<close>, the buffer is not
  empty and does not end in a newline or a space; otherwise nothing.\<close>

definition separator :: "'f arith \<Rightarrow> 'f \<Rightarrow> 'f Extractor \<Rightarrow> 'f \<Rightarrow> 'f \<Rightarrow> string" where
  "separator ar thr e x y =
     (if f_gt ar (f_abs ar (f_sub ar y (lastY e))) (f_mul ar (FontSize (textState e)) (f_lit ar 0.5))
         \<and> buffer e \<noteq> []
      then [CHR 0x0A]
      else if f_gt ar (f_sub ar x (lastX e)) thr \<and> buffer e \<noteq> []
              \<and> last (buffer e) \<noteq> CHR 0x0A \<and> last (buffer e) \<noteq> CHR '' ''
           then '' ''
      else [])"

subsection \<open>The pages a document holds\<close>

text \<open>The pages that \<open>LoadPDF\<close> emits: the pages whose retrieval, extractor construction
  and extraction return no error, in the order of their indices.\<close>

definition loadedPage :: "'f arith \<Rightarrow> 'f Externals \<Rightarrow> 'f Reader \<Rightarrow> int \<Rightarrow> 'f Page option" where
  "loadedPage ar x rd i = (case loadPage ar x rd i of Some (Inr pg) \<Rightarrow> Some pg | _ \<Rightarrow> None)"

definition emittedPages :: "'f arith \<Rightarrow> 'f Externals \<Rightarrow> 'f Reader \<Rightarrow> 'f Page list" where
  "emittedPages ar x rd = List.map_filter (loadedPage ar x rd) [0..NumPages rd - 1]"

text \<open>The elements of a \<^verbatim>\<open>/Contents\<close> array that resolve to a stream, in order.\<close>

definition streamElements :: "'f Reader \<Rightarrow> 'f Object list \<Rightarrow> ('f Dictionary \<times> string) list" where
  "streamElements rd arr =
     map (\<lambda>ref. the (stream_of (Resolve rd ref)))
       (filter (\<lambda>ref. stream_of (Resolve rd ref) \<noteq> None) arr)"

text \<open>What \<open>ExtractText\<close> returns when the streams \<open>ss\<close> are parsed and run in order.\<close>

definition textOfStreams ::
  "'f arith \<Rightarrow> 'f Externals \<Rightarrow> 'f Extractor \<Rightarrow> ('f Dictionary \<times> string) list
     \<Rightarrow> (fault + string) option" where
  "textOfStreams ar x e ss =
     (case runStreams ar (lexerOps x) e ss of
        None \<Rightarrow> None
      | Some (Inl err) \<Rightarrow> Some (Inl err)
      | Some (Inr e1) \<Rightarrow> Some (Inr (buffer e1)))"

subsection \<open>The arithmetic of the examples\<close>

text \<open>The examples are computed in binary64 arithmetic on the finite values: a value is the
  real number it stands for, and the result of an operation is the exact result rounded
  to the nearest number with a 53-bit significand, ties to the even one (\<open>rne\<close>), with
  the spacing of the subnormal numbers below \<open>2\<^sup>-\<^sup>1\<^sup>0\<^sup>2\<^sup>2\<close>. The conversion to \<^verbatim>\<open>int\<close>
  cuts off the fraction. Infinities, NaN, the overflow beyond the largest finite value
  and the range of \<^verbatim>\<open>int\<close> have no place in it; the values of the examples stay far
  from them.\<close>

definition rne :: "real \<Rightarrow> int" where
  "rne q =
     (if q - of_int \<lfloor>q\<rfloor> < 1 / 2 then \<lfloor>q\<rfloor>
      else if q - of_int \<lfloor>q\<rfloor> > 1 / 2 then \<lfloor>q\<rfloor> + 1
      else if even \<lfloor>q\<rfloor> then \<lfloor>q\<rfloor> else \<lfloor>q\<rfloor> + 1)"

definition binade :: "real \<Rightarrow> int" where
  "binade x = max \<lfloor>log 2 \<bar>x\<bar>\<rfloor> (- 1022)"

definition round64 :: "real \<Rightarrow> real" where
  "round64 x =
     (if x = 0 then 0
      else of_int (rne (x / 2 powr of_int (binade x - 52))) * 2 powr of_int (binade x - 52))"

definition binary64 :: "real arith" where
  "binary64 =
     \<lparr>f_lit = round64,
      f_add = (\<lambda>a b. round64 (a + b)),
      f_sub = (\<lambda>a b. round64 (a - b)),
      f_mul = (\<lambda>a b. round64 (a * b)),
      f_div = (\<lambda>a b. round64 (a / b)),
      f_neg = (\<lambda>a. - a),
      f_abs = (\<lambda>a. \<bar>a\<bar>),
      f_gt = (\<lambda>a b. a > b),
      f_int = (\<lambda>a. if a \<ge> 0 then \<lfloor>a\<rfloor> else \<lceil>a\<rceil>)\<rparr>"

subsection \<open>Example inputs\<close>

text \<open>Example operations: \<^verbatim>\<open>2 0 0 2 0 0 cm\<close>, \<^verbatim>\<open>0.5 0 0 0.5 0 0 cm\<close>, \<^verbatim>\<open>q\<close>, \<^verbatim>\<open>Q\<close>,
  \<^verbatim>\<open>(Hi) Tj\<close>.\<close>

definition op_cm_double :: "real Operation" where
  "op_cm_double = \<lparr>Operator = ''cm'', Operands = map NumberObject [2, 0, 0, 2, 0, 0]\<rparr>"

definition op_cm_half :: "real Operation" where
  "op_cm_half = \<lparr>Operator = ''cm'', Operands = map NumberObject [1 / 2, 0, 0, 1 / 2, 0, 0]\<rparr>"

definition op_q :: "real Operation" where
  "op_q = \<lparr>Operator = ''q'', Operands = []\<rparr>"

definition op_Q :: "real Operation" where
  "op_Q = \<lparr>Operator = ''Q'', Operands = []\<rparr>"

definition op_Tj_Hi :: "real Operation" where
  "op_Tj_Hi = \<lparr>Operator = ''Tj'', Operands = [StringObject ''Hi'']\<rparr>"

text \<open>The extractor of a page without resources, before its first operation.\<close>

definition freshExtractor :: "real Extractor" where
  "freshExtractor = newExtractorState binary64 []"

text \<open>An example font and an extractor that has selected it with \<^verbatim>\<open>/F1 12 Tf\<close>.\<close>

definition font_F1 :: "real Font" where
  "font_F1 =
     \<lparr>BaseFont = ''/Helvetica'', CMap = Some \<lparr>Map = []\<rparr>,
      Widths = [(32, 250), (65, 500), (66, 500), (72, 500), (101, 500), (108, 500),
                (111, 500)],
      MissingW = 0, SpaceWidth = 250,
      IsCID = False\<rparr>"

definition extractor_F1 :: "real Extractor" where
  "extractor_F1 =
     freshExtractor
       \<lparr>fonts := [(''/F1'', font_F1)],
        textState := (NewTextState binary64)\<lparr>Font := Some font_F1, FontSize := 12\<rparr>\<rparr>"

text \<open>The extractor after \<^verbatim>\<open>BT /F1 10 Tf (A) Tj -100 Tz 6 0 Td\<close>, with the font table
  \<^verbatim>\<open>/F1\<close> \<open>\<mapsto>\<close> \<open>font_F1\<close>, and the operations that lead to it.\<close>

definition extractor_mirrored :: "real Extractor" where
  "extractor_mirrored =
     freshExtractor
       \<lparr>fonts := [(''/F1'', font_F1)],
        textState := (NewTextState binary64)
          \<lparr>Font := Some font_F1, FontSize := 10, Scale := - 100,
           TM := \<lparr>m0 = 1, m1 = 0, m2 = 0, m3 = 1, m4 = 6, m5 = 0\<rparr>,
           TLM := \<lparr>m0 = 1, m1 = 0, m2 = 0, m3 = 1, m4 = 6, m5 = 0\<rparr>\<rparr>,
        lastX := 5, lastY := 0, buffer := ''A''\<rparr>"

definition ops_mirrored :: "real Operation list" where
  "ops_mirrored =
     [\<lparr>Operator = ''BT'', Operands = []\<rparr>,
      \<lparr>Operator = ''Tf'', Operands = [NameObject ''/F1'', NumberObject 10]\<rparr>,
      \<lparr>Operator = ''Tj'', Operands = [StringObject ''A'']\<rparr>,
      \<lparr>Operator = ''Tz'', Operands = [NumberObject (- 100)]\<rparr>,
      \<lparr>Operator = ''Td'', Operands = [NumberObject 6, NumberObject 0]\<rparr>]"

text \<open>An extractor in the middle of a line: font \<^verbatim>\<open>/F1\<close> at size 12, character spacing
  1, word spacing 2, a text matrix that scales by 2.\<close>

definition extractor_midline :: "real Extractor" where
  "extractor_midline =
     extractor_F1
       \<lparr>textState := (textState extractor_F1)
          \<lparr>CharSpacing := 1, WordSpacing := 2,
           TM := \<lparr>m0 = 2, m1 = 0, m2 = 0, m3 = 2, m4 = 100, m5 = 700\<rparr>\<rparr>,
        lastX := 90, lastY := 700, buffer := ''x''\<rparr>"

text \<open>The extractor after \<^verbatim>\<open>BT /F1 12 Tf 1 0 0 1 100000000000000000 0 Tm\<close> on a page
  without fonts: size 12, no font, the text matrix far to the right.\<close>

definition extractor_far :: "real Extractor" where
  "extractor_far =
     freshExtractor
       \<lparr>textState := (NewTextState binary64)
          \<lparr>FontSize := 12,
           TM := \<lparr>m0 = 1, m1 = 0, m2 = 0, m3 = 1, m4 = 100000000000000000, m5 = 0\<rparr>,
           TLM := \<lparr>m0 = 1, m1 = 0, m2 = 0, m3 = 1, m4 = 100000000000000000, m5 = 0\<rparr>\<rparr>\<rparr>"

definition ops_far :: "real Operation list" where
  "ops_far =
     [\<lparr>Operator = ''BT'', Operands = []\<rparr>,
      \<lparr>Operator = ''Tf'', Operands = [NameObject ''/F1'', NumberObject 12]\<rparr>,
      \<lparr>Operator = ''Tm'', Operands = map NumberObject [1, 0, 0, 1, 100000000000000000, 0]\<rparr>]"

text \<open>A font whose ToUnicode CMap is \<^verbatim>\<open>beginbfchar <0041> <0042> endbfchar\<close>.\<close>

definition font_F2 :: "'f arith \<Rightarrow> 'f Font" where
  "font_F2 ar =
     \<lparr>BaseFont = ''/Times'', CMap = Some \<lparr>Map = [(''0041'', ''B'')]\<rparr>,
      Widths = [], MissingW = f_lit ar 0, SpaceWidth = f_lit ar 250, IsCID = True\<rparr>"

text \<open>A font with an empty CMap and no widths.\<close>

definition font_F3 :: "'f arith \<Rightarrow> 'f Font" where
  "font_F3 ar =
     \<lparr>BaseFont = ''/Courier'', CMap = Some \<lparr>Map = []\<rparr>,
      Widths = [], MissingW = f_lit ar 0, SpaceWidth = f_lit ar 250, IsCID = True\<rparr>"

subsection \<open>Example documents\<close>

text \<open>A small lexer for the examples: names, literal strings without escapes, and
  keywords, separated by whitespace. It stands for no part of the program.\<close>

definition regularByte :: "char \<Rightarrow> bool" where
  "regularByte b = (\<not> isWhitespace b \<and> \<not> isDelimiter b)"

definition exampleReadObject :: "string \<Rightarrow> (fault + 'f Object) \<times> string" where
  "exampleReadObject inp =
     (case inp of
        [] \<Rightarrow> (Inl EOF, [])
      | c # cs \<Rightarrow>
          if c = CHR ''('' then
            (Inr (StringObject (takeWhile (\<lambda>b. b \<noteq> CHR '')'') cs)),
             drop 1 (dropWhile (\<lambda>b. b \<noteq> CHR '')'') cs))
          else if c = CHR ''/'' then
            (Inr (NameObject (c # takeWhile regularByte cs)), dropWhile regularByte cs)
          else if isDelimiter c \<or> isWhitespace c then (Inr (KeywordObject [c]), cs)
          else (Inr (KeywordObject (takeWhile regularByte inp)), dropWhile regularByte inp))"

definition exampleLexer :: "'f Lexer" where
  "exampleLexer = \<lparr>skipWhitespace = dropWhile isWhitespace, ReadObject = exampleReadObject\<rparr>"

text \<open>A document of three pages. Page 1 has one content stream; page 2 cannot be
  retrieved; the \<^verbatim>\<open>/Contents\<close> of page 3 is an array of two streams with a reference in
  between that resolves to \<^verbatim>\<open>null\<close>.\<close>

definition exampleResolve :: "'f Object \<Rightarrow> 'f Object" where
  "exampleResolve obj =
     (case obj of
        IndirectObject n g \<Rightarrow>
          if n = 10 then StreamObject [] ''BT (Hello) Tj ET''
          else if n = 11 then StreamObject [] ''BT (Wor) Tj''
          else if n = 12 then StreamObject [] ''(ld) Tj ET''
          else NullObject
      | _ \<Rightarrow> obj)"

definition examplePage1 :: "real Dictionary" where
  "examplePage1 =
     [(''/Contents'', IndirectObject 10 0),
      (''/MediaBox'', ArrayObject (map NumberObject [0, 0, 612, 792]))]"

definition examplePage3 :: "real Dictionary" where
  "examplePage3 =
     [(''/Contents'',
       ArrayObject [IndirectObject 11 0, IndirectObject 99 0, IndirectObject 12 0])]"

definition examplePage4 :: "real Dictionary" where
  "examplePage4 = [(''/Contents'', NameObject ''/None'')]"

definition exampleReader :: "real Reader" where
  "exampleReader =
     \<lparr>NumPages = 3,
      GetInfo = Inr (Some [(''/Title'', StringObject ''Example'')]),
      GetPage = (\<lambda>i. if i = 0 then Inr examplePage1
                     else if i = 2 then Inr examplePage3
                     else Inl (Failure ''page not found'')),
      Resolve = exampleResolve\<rparr>"

definition exampleExternals :: "real Externals" where
  "exampleExternals =
     \<lparr>Open = (\<lambda>path. Inr ''%PDF-1.4''),
      NewReader = (\<lambda>f. Inr exampleReader),
      lexerOps = exampleLexer,
      ParseCMap = (\<lambda>data. Inl (Failure ''no CMap''))\<rparr>"

text \<open>The document that \<open>LoadPDF\<close> makes of the example.\<close>

definition exampleDocument :: "real Document" where
  "exampleDocument =
     \<lparr>Metadata = \<lparr>Title = ''Example'', Author = [], Creator = [], Producer = [],
                   Encrypted = False\<rparr>,
      Pages = [\<lparr>PageNumber = 1, Content = ''Hello'', CharCount = 5, Width = 612, Height = 792\<rparr>,
               \<lparr>PageNumber = 3, Content = ''World'', CharCount = 5, Width = 0, Height = 0\<rparr>]\<rparr>"

text \<open>A document of two pages. Page 1 is the first page of the example above; the font
  \<^verbatim>\<open>/F1\<close> in the resources of page 2 is a reference that resolves to \<^verbatim>\<open>null\<close>.\<close>

definition brokenFontPage :: "real Dictionary" where
  "brokenFontPage =
     [(''/Resources'',
       DictionaryObject [(''/Font'', DictionaryObject [(''/F1'', IndirectObject 99 0)])]),
      (''/Contents'', IndirectObject 10 0)]"

definition brokenFontReader :: "real Reader" where
  "brokenFontReader =
     \<lparr>NumPages = 2,
      GetInfo = Inr None,
      GetPage = (\<lambda>i. if i = 0 then Inr examplePage1
                     else if i = 1 then Inr brokenFontPage
                     else Inl (Failure ''page not found'')),
      Resolve = exampleResolve\<rparr>"

definition brokenFontExternals :: "real Externals" where
  "brokenFontExternals =
     \<lparr>Open = (\<lambda>path. Inr ''%PDF-1.4''),
      NewReader = (\<lambda>f. Inr brokenFontReader),
      lexerOps = exampleLexer,
      ParseCMap = (\<lambda>data. Inl (Failure ''no CMap''))\<rparr>"

text \<open>An inline image whose data holds \<^verbatim>\<open>EI\<close> right after the byte \<^verbatim>\<open>a\<close>, before the
  marker that ends it: the stream \<^verbatim>\<open>BI /CS /G ID\<close>, LF, \<^verbatim>\<open>aEI b\<close>, LF, \<^verbatim>\<open>EI\<close>, LF,
  \<^verbatim>\<open>Q\<close>.\<close>

definition inlineImageStream :: string where
  "inlineImageStream =
     ''BI /CS /G ID'' @ [CHR 0x0A] @ ''aEI b'' @ [CHR 0x0A] @ ''EI'' @ [CHR 0x0A] @ ''Q''"

section \<open>Properties of the arithmetic of the examples\<close>

text \<open>A number \<open>k \<times> 2\<^sup>e\<close> with \<open>|k| < 2\<^sup>5\<^sup>3\<close> and \<open>e \<ge> -1074\<close> is a binary64 number:
  rounding leaves it as it is.\<close>

lemma rne_of_int [simp]: "rne (of_int k) = k"
  by (simp add: rne_def)

lemma round64_zero [simp]: "round64 0 = 0"
  by (simp add: round64_def)

lemma binade_upper:
  assumes "x \<noteq> 0" and "\<bar>x\<bar> < 2 powr of_int u" and "- 1022 \<le> u - 1"
  shows "binade x \<le> u - 1"
proof -
  from assms(1) have pos: "0 < \<bar>x\<bar>" by simp
  have "log 2 \<bar>x\<bar> < of_int u"
    using assms(2) pos by (simp add: log_less_iff)
  then have "\<lfloor>log 2 \<bar>x\<bar>\<rfloor> < u" by (simp add: floor_less_iff)
  with assms(3) show ?thesis by (simp add: binade_def)
qed

lemma round64_exact_powr:
  assumes k: "\<bar>k\<bar> < 2 ^ 53" and e: "- 1074 \<le> e"
  shows "round64 (of_int k * 2 powr of_int e) = of_int k * 2 powr of_int e"
proof (cases "k = 0")
  case True
  then show ?thesis by simp
next
  case False
  define x :: real where "x = of_int k * 2 powr of_int e"
  from False have nz: "x \<noteq> 0" by (simp add: x_def)
  have "\<bar>x\<bar> = of_int \<bar>k\<bar> * 2 powr of_int e" by (simp add: x_def abs_mult)
  also have "\<dots> < 2 ^ 53 * 2 powr of_int e"
  proof -
    from k have "real_of_int \<bar>k\<bar> < real_of_int (2 ^ 53)" by (simp only: of_int_less_iff)
    then show ?thesis by simp
  qed
  also have "\<dots> = 2 powr of_int (53 + e)"
    by (simp add: powr_add powr_realpow)
  finally have up: "\<bar>x\<bar> < 2 powr of_int (53 + e)" .
  from e have "- 1022 \<le> (53 + e) - 1" by simp
  from binade_upper [OF nz up this] have b: "binade x \<le> 52 + e" by simp
  define d where "d = nat (52 + e - binade x)"
  from b have "real_of_int (binade x - 52) = real_of_int e - real d" by (simp add: d_def)
  then have "2 powr real_of_int (binade x - 52) = 2 powr (real_of_int e - real d)"
    by (rule arg_cong)
  also have "\<dots> = 2 powr real_of_int e / 2 ^ d"
    by (simp only: powr_diff powr_realpow zero_less_numeral)
  finally have p: "2 powr real_of_int (binade x - 52) = 2 powr real_of_int e / 2 ^ d" .
  have q: "x / (2 powr real_of_int e / 2 ^ d) = of_int (k * 2 ^ d)"
    by (simp add: x_def)
  have "round64 x = of_int (rne (x / (2 powr real_of_int e / 2 ^ d))) * (2 powr real_of_int e / 2 ^ d)"
    by (simp only: round64_def p nz if_False)
  also have "\<dots> = of_int (k * 2 ^ d) * (2 powr real_of_int e / 2 ^ d)"
    by (simp only: q rne_of_int)
  also have "\<dots> = x"
    by (simp add: x_def)
  finally show ?thesis by (simp add: x_def)
qed

lemma round64_exact:
  assumes "\<bar>k\<bar> < 2 ^ 53" and "n \<le> 1074"
  shows "round64 (of_int k / 2 ^ n) = of_int k / 2 ^ n"
proof -
  have "2 powr real_of_int (- int n) = 1 / (2::real) ^ n"
    by (simp add: powr_minus powr_realpow inverse_eq_divide)
  with round64_exact_powr [of k "- int n"] assms show ?thesis by simp
qed

lemma round64_exact_mult:
  assumes "\<bar>k\<bar> < 2 ^ 53"
  shows "round64 (of_int k * 2 ^ n) = of_int k * 2 ^ n"
proof -
  have "2 powr real_of_int (int n) = (2::real) ^ n"
    by (simp add: powr_realpow)
  with round64_exact_powr [of k "int n"] assms show ?thesis by simp
qed

lemma round64_of_int: "\<bar>k\<bar> < 2 ^ 53 \<Longrightarrow> round64 (of_int k) = of_int k"
  using round64_exact [of k 0] by simp

lemma round64_numeral [simp]:
  "numeral w < (9007199254740992::int) \<Longrightarrow> round64 (numeral w) = numeral w"
  using round64_of_int [of "numeral w"] by simp

lemma round64_neg_numeral [simp]:
  "numeral w < (9007199254740992::int) \<Longrightarrow> round64 (- numeral w) = - numeral w"
  using round64_of_int [of "- numeral w"] by simp

lemma round64_one [simp]: "round64 1 = 1" "round64 (- 1) = - 1"
  using round64_of_int [of 1] round64_of_int [of "- 1"] by simp_all

lemma round64_halves [simp]:
  "numeral w < (9007199254740992::int) \<Longrightarrow> round64 (numeral w / 2) = numeral w / 2"
  "numeral w < (9007199254740992::int) \<Longrightarrow> round64 (- (numeral w / 2)) = - (numeral w / 2)"
  "round64 (1 / 2) = 1 / 2"
  using round64_exact [of "numeral w" 1] round64_exact [of "- numeral w" 1] round64_exact [of 1 1]
  by simp_all

lemma round64_quarters [simp]:
  "numeral w < (9007199254740992::int) \<Longrightarrow> round64 (numeral w / 4) = numeral w / 4"
  "numeral w < (9007199254740992::int) \<Longrightarrow> round64 (- (numeral w / 4)) = - (numeral w / 4)"
  "round64 (1 / 4) = 1 / 4"
  using round64_exact [of "numeral w" 2] round64_exact [of "- numeral w" 2] round64_exact [of 1 2]
  by simp_all

text \<open>The rounding of a number of a known binade.\<close>

lemma binade_pos: "2 ^ n \<le> \<bar>x\<bar> \<Longrightarrow> \<bar>x\<bar> < 2 ^ Suc n \<Longrightarrow> binade x = int n"
proof -
  assume a: "2 ^ n \<le> \<bar>x\<bar>" and b: "\<bar>x\<bar> < 2 ^ Suc n"
  have "(0::real) < 2 ^ n" by simp
  with a have pos: "0 < \<bar>x\<bar>" by linarith
  have "2 powr real_of_int (int n) \<le> \<bar>x\<bar>"
    using a by (simp add: powr_realpow)
  moreover have "\<bar>x\<bar> < 2 powr real_of_int (int n + 1)"
    using b by (simp add: powr_realpow powr_add)
  ultimately have "\<lfloor>log 2 \<bar>x\<bar>\<rfloor> = int n"
    using pos by (simp add: floor_log_eq_powr_iff)
  then show ?thesis by (simp add: binade_def)
qed

lemma binade_neg:
  "1 / 2 ^ n \<le> \<bar>x\<bar> \<Longrightarrow> \<bar>x\<bar> < 2 / 2 ^ n \<Longrightarrow> n \<le> 1022 \<Longrightarrow> binade x = - int n"
proof -
  assume a: "1 / 2 ^ n \<le> \<bar>x\<bar>" and b: "\<bar>x\<bar> < 2 / 2 ^ n" and n: "n \<le> 1022"
  have "(0::real) < 1 / 2 ^ n" by simp
  with a have pos: "0 < \<bar>x\<bar>" by linarith
  have "2 powr real_of_int (- int n) = 1 / (2::real) ^ n"
    by (simp add: powr_minus powr_realpow inverse_eq_divide)
  then have l: "2 powr real_of_int (- int n) \<le> \<bar>x\<bar>"
    using a by simp
  have "2 powr real_of_int (- int n + 1) = 2 powr (1 - real n)"
    by simp
  also have "\<dots> = 2 powr 1 / 2 powr real n"
    by (rule powr_diff)
  also have "\<dots> = 2 / (2::real) ^ n"
    by (simp add: powr_realpow)
  finally have u: "\<bar>x\<bar> < 2 powr real_of_int (- int n + 1)"
    using b by simp
  from l u pos have "\<lfloor>log 2 \<bar>x\<bar>\<rfloor> = - int n"
    by (simp add: floor_log_eq_powr_iff)
  then show ?thesis using n by (simp add: binade_def)
qed

lemma round64_binade_pos:
  assumes "2 ^ n \<le> \<bar>x\<bar>" and "\<bar>x\<bar> < 2 ^ Suc n"
  shows "round64 x = of_int (rne (x * 2 ^ 52 / 2 ^ n)) * 2 ^ n / 2 ^ 52"
proof -
  have "(0::real) < 2 ^ n" by simp
  with assms(1) have "0 < \<bar>x\<bar>" by linarith
  then have nz: "x \<noteq> 0" by simp
  have "2 powr real_of_int (int n - 52) = 2 powr real n / 2 powr 52"
    by (simp add: powr_diff)
  also have "\<dots> = (2::real) ^ n / 2 ^ 52"
    by (simp add: powr_realpow)
  finally have p: "2 powr real_of_int (binade x - 52) = (2::real) ^ n / 2 ^ 52"
    by (simp only: binade_pos [OF assms])
  have "round64 x = of_int (rne (x / (2 ^ n / 2 ^ 52))) * (2 ^ n / 2 ^ 52)"
    by (simp only: round64_def p nz if_False)
  then show ?thesis
    by (simp only: divide_divide_eq_right times_divide_eq_right)
qed

lemma round64_binade_neg:
  assumes "1 / 2 ^ n \<le> \<bar>x\<bar>" and "\<bar>x\<bar> < 2 / 2 ^ n" and "n \<le> 1022"
  shows "round64 x = of_int (rne (x * 2 ^ (52 + n))) / 2 ^ (52 + n)"
proof -
  have "(0::real) < 1 / 2 ^ n" by simp
  with assms(1) have "0 < \<bar>x\<bar>" by linarith
  then have nz: "x \<noteq> 0" by simp
  have "real_of_int (- int n - 52) = - real (52 + n)"
    by simp
  then have "2 powr real_of_int (- int n - 52) = 2 powr (- real (52 + n))"
    by (rule arg_cong)
  also have "\<dots> = 1 / (2::real) ^ (52 + n)"
    by (simp only: powr_minus powr_realpow zero_less_numeral inverse_eq_divide)
  finally have p: "2 powr real_of_int (binade x - 52) = 1 / (2::real) ^ (52 + n)"
    by (simp only: binade_neg [OF assms])
  have "round64 x = of_int (rne (x / (1 / 2 ^ (52 + n)))) * (1 / 2 ^ (52 + n))"
    by (simp only: round64_def p nz if_False)
  then show ?thesis
    by (simp only: divide_divide_eq_right times_divide_eq_right mult_1_right div_by_1 mult_1)
qed

lemma round64_fifth: "round64 (1 / 5) = 7205759403792794 / 2 ^ 55"
  by (simp add: round64_binade_neg [of 3] rne_def)

lemma binary64_ops [simp]:
  "f_lit binary64 = round64"
  "f_add binary64 a b = round64 (a + b)"
  "f_sub binary64 a b = round64 (a - b)"
  "f_mul binary64 a b = round64 (a * b)"
  "f_div binary64 a b = round64 (a / b)"
  "f_neg binary64 a = - a"
  "f_abs binary64 a = \<bar>a\<bar>"
  "f_gt binary64 a b = (a > b)"
  by (simp_all add: binary64_def)

text \<open>The results are rounded: \<open>600 / 1000 \<times> 12\<close> is \<open>7.199999999999999\<close>, below
  \<open>7.2\<close>.\<close>

lemma round64_three_fifths: "round64 (3 / 5) = 5404319552844595 / 2 ^ 53"
  by (simp add: round64_binade_neg [of 1] rne_def)

lemma binary64_rounds:
  "f_mul binary64 (f_div binary64 600 (f_lit binary64 1000)) 12 = 8106479329266892 / 2 ^ 50"
  "f_mul binary64 (f_div binary64 600 (f_lit binary64 1000)) 12 < 72 / 10"
  by (simp_all add: round64_three_fifths round64_binade_pos [of 2] rne_def)

lemma binary64_identity:
  "IdentityMatrix binary64 = \<lparr>m0 = 1, m1 = 0, m2 = 0, m3 = 1, m4 = 0, m5 = 0\<rparr>"
  by (simp add: IdentityMatrix_def)

lemma binary64_text_state:
  "NewTextState binary64 =
     \<lparr>Font = None, FontSize = 0, CharSpacing = 0, WordSpacing = 0, Scale = 100, Leading = 0,
      Rise = 0, TM = \<lparr>m0 = 1, m1 = 0, m2 = 0, m3 = 1, m4 = 0, m5 = 0\<rparr>,
      TLM = \<lparr>m0 = 1, m1 = 0, m2 = 0, m3 = 1, m4 = 0, m5 = 0\<rparr>\<rparr>"
  by (simp add: NewTextState_def binary64_identity)

lemma binary64_fresh:
  "newExtractorState binary64 pg =
     \<lparr>page = pg, gState = \<lparr>CTM = \<lparr>m0 = 1, m1 = 0, m2 = 0, m3 = 1, m4 = 0, m5 = 0\<rparr>\<rparr>, gStack = [],
      textState = NewTextState binary64, fonts = [], lastX = 0, lastY = 0, buffer = []\<rparr>"
  by (simp add: newExtractorState_def binary64_identity)

section \<open>Properties of the operator interpreter\<close>

lemma handleText_graphics:
  "gState (handleText ar e obj) = gState e \<and> gStack (handleText ar e obj) = gStack e"
  by (simp add: handleText_def Let_def split: option.splits)

lemma TJ_element_graphics:
  "gState (TJ_element ar obj e) = gState e \<and> gStack (TJ_element ar obj e) = gStack e"
  by (cases obj) (simp_all add: TJ_element_def Let_def handleText_graphics)

lemma fold_TJ_element_graphics:
  "gState (fold (TJ_element ar) arr e) = gState e \<and> gStack (fold (TJ_element ar) arr e) = gStack e"
  by (induction arr arbitrary: e) (simp_all add: TJ_element_graphics)

lemma processOp_Tstar:
  "processOp ar e \<lparr>Operator = ''T*'', Operands = args\<rparr> =
     Inr (e\<lparr>textState := (textState e)
            \<lparr>TLM := Mult ar (translate ar (f_lit ar 0) (f_neg ar (Leading (textState e))))
                      (TLM (textState e)),
             TM := Mult ar (translate ar (f_lit ar 0) (f_neg ar (Leading (textState e))))
                     (TLM (textState e))\<rparr>\<rparr>)"
  by (subst processOp.simps) (simp add: Let_def)

lemma processOp_Tj:
  "processOp ar e \<lparr>Operator = ''Tj'', Operands = args\<rparr> =
     (if length args > 0 then Inr (handleText ar e (args ! 0)) else Inr e)"
  by (subst processOp.simps) simp

lemma processOp_q:
  "Operator op = ''q'' \<Longrightarrow> processOp ar e op = Inr (e\<lparr>gStack := gStack e @ [gState e]\<rparr>)"
  by (subst processOp.simps) simp

lemma processOp_Q:
  "Operator op = ''Q'' \<Longrightarrow> processOp ar e op =
     (if length (gStack e) > 0
      then Inr (e\<lparr>gState := last (gStack e), gStack := butlast (gStack e)\<rparr>) else Inr e)"
  by (subst processOp.simps) simp

lemma processOp_cm:
  "Operator op = ''cm'' \<Longrightarrow> processOp ar e op =
     (if length (Operands op) = 6
      then Inr (e\<lparr>gState := (gState e)
                  \<lparr>CTM := Mult ar (argsToMatrix ar (Operands op)) (CTM (gState e))\<rparr>\<rparr>)
      else Inr e)"
  by (subst processOp.simps) simp

lemma processOp_cm_stack:
  "Operator op = ''cm'' \<Longrightarrow> processOp ar e op = Inr e' \<Longrightarrow> gStack e' = gStack e"
  by (auto simp: processOp_cm split: if_splits)

text \<open>Only \<^verbatim>\<open>q\<close>, \<^verbatim>\<open>Q\<close> and \<^verbatim>\<open>cm\<close> touch the graphics state and its stack.\<close>

lemma processOp_graphics:
  assumes "processOp ar e op = Inr e'"
    and "Operator op \<noteq> ''q''" and "Operator op \<noteq> ''Q''" and "Operator op \<noteq> ''cm''"
  shows "gState e' = gState e \<and> gStack e' = gStack e"
  using assms
  apply (subst (asm) processOp.simps)
  apply (auto simp: Let_def operand_def processOp_Tstar processOp_Tj handleText_graphics
      fold_TJ_element_graphics split: if_splits sum.splits Object.splits option.splits)
  done

lemma bracketed_restores:
  "bracketed d ops \<Longrightarrow> processOps ar e ops = Inr e' \<Longrightarrow> d \<le> length (gStack e) \<Longrightarrow>
     gStack e' = take (length (gStack e) - d) (gStack e) \<and>
     gState e' = (if d = 0 then gState e else gStack e ! (length (gStack e) - d))"
proof (induction ops arbitrary: e d)
  case Nil
  then show ?case by simp
next
  case (Cons op ops)
  from Cons.prems(2) obtain e1 where step: "processOp ar e op = Inr e1"
    and rest: "processOps ar e1 ops = Inr e'"
    by (auto split: sum.splits)
  consider (q) "Operator op = ''q''" | (Q) "Operator op = ''Q''" | (cm) "Operator op = ''cm''"
    | (other) "Operator op \<noteq> ''q''" "Operator op \<noteq> ''Q''" "Operator op \<noteq> ''cm''"
    by blast
  then show ?case
  proof cases
    case q
    with step have e1: "e1 = e\<lparr>gStack := gStack e @ [gState e]\<rparr>" by (simp add: processOp_q)
    from q Cons.prems(1) have b: "bracketed (Suc d) ops" by simp
    have "Suc d \<le> length (gStack e1)" using Cons.prems(3) e1 by simp
    from Cons.IH [OF b rest this] show ?thesis
      using Cons.prems(3) by (auto simp: e1 nth_append)
  next
    case Q
    with Cons.prems(1) have d: "d > 0" and b: "bracketed (d - 1) ops" by simp_all
    with Cons.prems(3) have ne: "gStack e \<noteq> []" by auto
    with Q step have e1: "e1 = e\<lparr>gState := last (gStack e), gStack := butlast (gStack e)\<rparr>"
      by (simp add: processOp_Q)
    have "d - 1 \<le> length (gStack e1)" using Cons.prems(3) e1 by simp
    from Cons.IH [OF b rest this] show ?thesis
      using Cons.prems(3) d ne
      by (cases "d = 1") (auto simp: e1 take_butlast nth_butlast last_conv_nth butlast_conv_take)
  next
    case cm
    with Cons.prems(1) have d: "d > 0" and b: "bracketed d ops" by simp_all
    have s: "gStack e1 = gStack e" using cm step by (rule processOp_cm_stack)
    from Cons.IH [OF b rest] Cons.prems(3) d show ?thesis by (simp add: s)
  next
    case other
    with Cons.prems(1) have b: "bracketed d ops" by simp
    from processOp_graphics [OF step other]
    have s: "gStack e1 = gStack e" "gState e1 = gState e" by simp_all
    from Cons.IH [OF b rest] Cons.prems(3) show ?thesis by (simp add: s)
  qed
qed

lemma cm_double: "processOp ar e op_cm_double =
  Inr (e\<lparr>gState := (gState e)
         \<lparr>CTM := Mult ar \<lparr>m0 = 2, m1 = 0, m2 = 0, m3 = 2, m4 = 0, m5 = 0\<rparr> (CTM (gState e))\<rparr>\<rparr>)"
  by (simp add: processOp_cm op_cm_double_def argsToMatrix_def number_def)

lemma cm_half: "processOp ar e op_cm_half =
  Inr (e\<lparr>gState := (gState e)
         \<lparr>CTM := Mult ar \<lparr>m0 = 1 / 2, m1 = 0, m2 = 0, m3 = 1 / 2, m4 = 0, m5 = 0\<rparr>
                   (CTM (gState e))\<rparr>\<rparr>)"
  by (simp add: processOp_cm op_cm_half_def argsToMatrix_def number_def)

lemma q_step: "processOp ar e op_q = Inr (e\<lparr>gStack := gStack e @ [gState e]\<rparr>)"
  by (simp add: processOp_q op_q_def)

lemma Tj_Hi_step: "processOp ar e op_Tj_Hi = Inr (handleText ar e (StringObject ''Hi''))"
  by (simp add: op_Tj_Hi_def processOp_Tj)

lemma Q_step: "processOp ar e op_Q =
     (if length (gStack e) > 0
      then Inr (e\<lparr>gState := last (gStack e), gStack := butlast (gStack e)\<rparr>) else Inr e)"
  by (simp add: processOp_Q op_Q_def)

text \<open>
  Claim C6, as amended. For every operation sequence in which the nested \<^verbatim>\<open>q\<close>/\<^verbatim>\<open>Q\<close>
  count is balanced and every \<^verbatim>\<open>cm\<close> stands inside a \<^verbatim>\<open>q\<close>/\<^verbatim>\<open>Q\<close> pair of the
  sequence, and that runs without a panic, the CTM at the end equals the CTM at the
  start (and so does the graphics stack), whatever the arithmetic.
\<close>

theorem bracket_law:
  "bracketed 0 ops \<Longrightarrow> processOps ar e ops = Inr e' \<Longrightarrow>
     CTM (gState e') = CTM (gState e) \<and> gStack e' = gStack e"
  using bracketed_restores [of 0 ops ar e e'] by simp

text \<open>The example of the specification, with a string shown inside the brackets:
  \<^verbatim>\<open>q 2 0 0 2 0 0 cm q 0.5 0 0 0.5 0 0 cm (Hi) Tj Q Q\<close>.\<close>

theorem bracket_law_witness:
  "bracketed 0 [op_q, op_cm_double, op_q, op_cm_half, op_Tj_Hi, op_Q, op_Q]
   \<and> processOps binary64 freshExtractor
       [op_q, op_cm_double, op_q, op_cm_half, op_Tj_Hi, op_Q, op_Q]
       = Inr (freshExtractor\<lparr>buffer := ''Hi''\<rparr>)
   \<and> CTM (gState (freshExtractor\<lparr>buffer := ''Hi''\<rparr>)) = IdentityMatrix binary64
   \<and> CTM (gState freshExtractor) = IdentityMatrix binary64
   \<and> gStack (freshExtractor\<lparr>buffer := ''Hi''\<rparr>) = []"
proof -
  have b: "bracketed 0 [op_q, op_cm_double, op_q, op_cm_half, op_Tj_Hi, op_Q, op_Q]"
    by (simp add: op_q_def op_Q_def op_cm_double_def op_cm_half_def op_Tj_Hi_def)
  have r: "processOps binary64 freshExtractor
       [op_q, op_cm_double, op_q, op_cm_half, op_Tj_Hi, op_Q, op_Q]
       = Inr (freshExtractor\<lparr>buffer := ''Hi''\<rparr>)"
    by (simp add: cm_double cm_half q_step Q_step Tj_Hi_step)
       (simp add: handleText_def rawBytes_of_def Let_def freshExtractor_def binary64_fresh
        binary64_text_state Mult_def detectSpacing_def threshold_def spaceWidth_def
        decodeText_def totalWidth_def heuristicWidth_def)
  have i: "CTM (gState freshExtractor) = IdentityMatrix binary64"
    "gStack freshExtractor = []"
    by (simp_all add: freshExtractor_def newExtractorState_def)
  from bracket_law [OF b r] b r i show ?thesis by simp
qed

text \<open>Claim C6 as stated fails: the sequence \<^verbatim>\<open>2 0 0 2 0 0 cm\<close> holds no \<^verbatim>\<open>q\<close> and no
  \<^verbatim>\<open>Q\<close>, so its count is balanced, and it changes the CTM.\<close>

theorem bracket_law_counterexample:
  "balanced 0 [op_cm_double]
   \<and> processOps binary64 freshExtractor [op_cm_double]
       = Inr (freshExtractor
                \<lparr>gState := \<lparr>CTM = \<lparr>m0 = 2, m1 = 0, m2 = 0, m3 = 2, m4 = 0, m5 = 0\<rparr>\<rparr>\<rparr>)
   \<and> CTM (gState (freshExtractor
                \<lparr>gState := \<lparr>CTM = \<lparr>m0 = 2, m1 = 0, m2 = 0, m3 = 2, m4 = 0, m5 = 0\<rparr>\<rparr>\<rparr>))
       \<noteq> CTM (gState freshExtractor)"
proof -
  have "balanced 0 [op_cm_double]"
    by (simp add: op_cm_double_def)
  moreover have "processOps binary64 freshExtractor [op_cm_double]
       = Inr (freshExtractor
                \<lparr>gState := \<lparr>CTM = \<lparr>m0 = 2, m1 = 0, m2 = 0, m3 = 2, m4 = 0, m5 = 0\<rparr>\<rparr>\<rparr>)"
    by (simp add: cm_double) (simp add: freshExtractor_def binary64_fresh Mult_def)
  moreover have "CTM (gState (freshExtractor
                \<lparr>gState := \<lparr>CTM = \<lparr>m0 = 2, m1 = 0, m2 = 0, m3 = 2, m4 = 0, m5 = 0\<rparr>\<rparr>\<rparr>))
       \<noteq> CTM (gState freshExtractor)"
    by (simp add: freshExtractor_def binary64_fresh)
  ultimately show ?thesis by blast
qed

text \<open>
  Claim C9. A \<^verbatim>\<open>Tf\<close> whose first operand is a name that is not in the font table
  leaves the current font as it was and sets the font size from the second operand;
  nothing else of the extractor changes.
\<close>

theorem Tf_unknown_font:
  "Operator op = ''Tf'' \<Longrightarrow> Operands op = NameObject name # sz # rest \<Longrightarrow>
   map_of (fonts e) name = None \<Longrightarrow>
   processOp ar e op = Inr (e\<lparr>textState := (textState e)\<lparr>FontSize := number ar sz\<rparr>\<rparr>)"
  by (subst processOp.simps) (simp add: operand_def)

theorem Tf_unknown_font_witness:
  "Operator \<lparr>Operator = ''Tf'', Operands = [NameObject ''/F9'', NumberObject 10]\<rparr> = ''Tf''
   \<and> map_of (fonts extractor_F1) ''/F9'' = None
   \<and> processOp binary64 extractor_F1
        \<lparr>Operator = ''Tf'', Operands = [NameObject ''/F9'', NumberObject 10]\<rparr>
       = Inr (extractor_F1\<lparr>textState := (textState extractor_F1)\<lparr>FontSize := 10\<rparr>\<rparr>)
   \<and> Font (textState (extractor_F1\<lparr>textState := (textState extractor_F1)\<lparr>FontSize := 10\<rparr>\<rparr>))
       = Some font_F1"
proof -
  have n: "map_of (fonts extractor_F1) ''/F9'' = None"
    by (simp add: extractor_F1_def)
  from Tf_unknown_font
    [where op = "\<lparr>Operator = ''Tf'', Operands = [NameObject ''/F9'', NumberObject 10]\<rparr>"
       and name = "''/F9''" and sz = "NumberObject 10" and rest = "[]" and e = extractor_F1
       and ar = binary64] n
  have "processOp binary64 extractor_F1
          \<lparr>Operator = ''Tf'', Operands = [NameObject ''/F9'', NumberObject 10]\<rparr>
       = Inr (extractor_F1\<lparr>textState := (textState extractor_F1)
                \<lparr>FontSize := number binary64 (NumberObject 10)\<rparr>\<rparr>)"
    by simp
  then show ?thesis
    using n by (simp add: number_def) (simp add: extractor_F1_def)
qed

text \<open>
  Claim C4, on the code. The claim says that a known operator with fewer operands than
  it reads is skipped. The code reads \<^verbatim>\<open>op.Operands[0]\<close> without a check for
  \<^verbatim>\<open>Tc\<close>, \<^verbatim>\<open>Tw\<close>, \<^verbatim>\<open>Tz\<close>, \<^verbatim>\<open>TL\<close>, \<^verbatim>\<open>Tf\<close>, \<^verbatim>\<open>Td\<close> and \<^verbatim>\<open>TD\<close>: with an empty
  operand list each of them panics.
\<close>

theorem missing_operand_panics:
  "Operator op \<in> set [''Tc'', ''Tw'', ''Tz'', ''TL'', ''Tf'', ''Td'', ''TD''] \<Longrightarrow>
   Operands op = [] \<Longrightarrow> processOp ar e op = Inl (Panic ''index out of range'')"
  by (subst processOp.simps) (auto simp: operand_def)

theorem missing_operand_panics_witness:
  "Operator \<lparr>Operator = ''Tc'', Operands = []\<rparr>
     \<in> set [''Tc'', ''Tw'', ''Tz'', ''TL'', ''Tf'', ''Td'', ''TD'']
   \<and> processOp binary64 freshExtractor \<lparr>Operator = ''Tc'', Operands = []\<rparr>
       = Inl (Panic ''index out of range'')"
  using missing_operand_panics
    [where op = "\<lparr>Operator = ''Tc'', Operands = []\<rparr>" and e = freshExtractor and ar = binary64]
  by simp

section \<open>Properties of the show-string routine\<close>




text \<open>The four text-showing operators hand their strings to \<open>handleText\<close>: \<^verbatim>\<open>Tj\<close>
  (lemma \<open>processOp_Tj\<close>), the string elements of \<^verbatim>\<open>TJ\<close>, \<^verbatim>\<open>'\<close> and \<^verbatim>\<open>"\<close> after
  \<^verbatim>\<open>T*\<close>.\<close>

lemma TJ_element_string:
  "rawBytes_of obj = Some rawBytes \<Longrightarrow> TJ_element ar obj e = handleText ar e obj"
  by (cases obj) (simp_all add: TJ_element_def rawBytes_of_def)

lemma processOp_apostrophe:
  "processOp ar e \<lparr>Operator = [CHR 0x27], Operands = s # args\<rparr> =
     Inr (handleText ar
            (e\<lparr>textState := (textState e)
                 \<lparr>TLM := Mult ar (translate ar (f_lit ar 0) (f_neg ar (Leading (textState e))))
                           (TLM (textState e)),
                  TM := Mult ar (translate ar (f_lit ar 0) (f_neg ar (Leading (textState e))))
                          (TLM (textState e))\<rparr>\<rparr>) s)"
  by (subst processOp.simps) (simp add: processOp_Tstar processOp_Tj)

lemma processOp_quotation:
  "processOp ar e \<lparr>Operator = [CHR 0x22], Operands = aw # ac # s # args\<rparr> =
     Inr (handleText ar
            (e\<lparr>textState := (textState e)
                 \<lparr>WordSpacing := number ar aw, CharSpacing := number ar ac,
                  TLM := Mult ar (translate ar (f_lit ar 0) (f_neg ar (Leading (textState e))))
                           (TLM (textState e)),
                  TM := Mult ar (translate ar (f_lit ar 0) (f_neg ar (Leading (textState e))))
                          (TLM (textState e))\<rparr>\<rparr>) s)"
  by (subst processOp.simps) (simp add: processOp_Tstar processOp_Tj operand_def)

text \<open>The example in the middle of a line, in binary64 arithmetic.\<close>

lemma midline_decoded: "decodeText (textState extractor_midline) ''A B'' = ''A B''"
  by (simp add: decodeText_def extractor_midline_def extractor_F1_def font_F1_def)


lemma midline_start:
  "m4 (Mult binary64 (TM (textState extractor_midline)) (CTM (gState extractor_midline))) = 100"
  "m5 (Mult binary64 (TM (textState extractor_midline)) (CTM (gState extractor_midline))) = 700"
  by (simp_all add: extractor_midline_def extractor_F1_def freshExtractor_def binary64_fresh
      Mult_def)

text \<open>The example far to the right, in binary64 arithmetic: the numbers next to
  \<open>10\<^sup>1\<^sup>7\<close> are 16 apart, so \<open>10\<^sup>1\<^sup>7 + 6\<close> rounds to \<open>10\<^sup>1\<^sup>7\<close>.\<close>

lemma round64_far: "round64 100000000000000000 = 100000000000000000"
  using round64_exact_mult [of 762939453125 17] by simp


lemma far_reached: "processOps binary64 freshExtractor ops_far = Inr extractor_far"
  apply (simp add: ops_far_def)
  apply (subst processOp.simps, simp)
  apply (subst processOp.simps, simp add: operand_def freshExtractor_def binary64_fresh)
  apply (subst processOp.simps, simp add: argsToMatrix_def number_def)
  apply (simp add: extractor_far_def freshExtractor_def binary64_fresh binary64_text_state
      binary64_identity)
  done





text \<open>The threshold of the source is the one of the amended claim, in an arithmetic in
  which 0 is not greater than 0.\<close>

lemma threshold_amended:
  "\<not> f_gt ar (f_lit ar 0) (f_lit ar 0) \<Longrightarrow> threshold ar ts = amended_threshold ar ts"
  by (simp add: threshold_def amended_threshold_def spaceWidth_def user_space_width_def
      split: option.splits)

lemma HasSuffix_single: "HasSuffix s [c] = (s \<noteq> [] \<and> last s = c)"
proof (cases s rule: rev_cases)
  case Nil
  then show ?thesis by (simp add: HasSuffix_def)
next
  case (snoc ys y)
  then show ?thesis by (simp add: HasSuffix_def)
qed

lemma detectSpacing_separator:
  "\<not> f_gt ar (f_lit ar 0) (f_lit ar 0) \<Longrightarrow>
   detectSpacing ar e x y = buffer e @ separator ar (amended_threshold ar (textState e)) e x y"
  by (simp add: detectSpacing_def separator_def threshold_amended HasSuffix_single)

lemma detectSpacing_empty: "buffer e = [] \<Longrightarrow> detectSpacing ar e x y = []"
  by (simp add: detectSpacing_def)

lemma handleText_buffer:
  "rawBytes_of obj = Some rawBytes \<Longrightarrow>
   buffer (handleText ar e obj)
     = detectSpacing ar e (m4 (Mult ar (TM (textState e)) (CTM (gState e))))
         (m5 (Mult ar (TM (textState e)) (CTM (gState e))))
       @ decodeText (textState e) rawBytes"
  by (simp add: handleText_def Let_def)

text \<open>
  Claim C2, as amended. In every show-string invocation, with \<open>(x, y)\<close> the start
  position taken from \<open>TM \<times> CTM\<close> and all comparisons and operations those of
  \<^verbatim>\<open>float64\<close>: a newline is appended if and only if \<open>|y - last_y| > size \<times> 0.5\<close> and the
  buffer is non-empty; otherwise a single space is appended if and only if
  \<open>x - last_x\<close> exceeds the threshold, the buffer is non-empty and does not end in a
  newline or a space. The threshold is half the space width in user space when the font
  is known and that width is greater than 0, and \<open>size \<times> 0.2\<close> otherwise. The decoded
  text follows. This holds in every arithmetic in which 0 is not greater than 0.
\<close>

theorem show_string_spacing:
  "\<not> f_gt ar (f_lit ar 0) (f_lit ar 0) \<Longrightarrow> rawBytes_of obj = Some rawBytes \<Longrightarrow>
   buffer (handleText ar e obj)
     = buffer e
       @ separator ar (amended_threshold ar (textState e)) e
           (m4 (Mult ar (TM (textState e)) (CTM (gState e))))
           (m5 (Mult ar (TM (textState e)) (CTM (gState e))))
       @ decodeText (textState e) rawBytes"
  by (simp add: handleText_buffer detectSpacing_separator)

text \<open>In binary64 arithmetic, in the middle of a line: the string starts at
  \<open>(100, 700)\<close>, the last one ended at \<open>(90, 700)\<close>, the threshold is 1.5, and a space is
  appended.\<close>

theorem show_string_spacing_witness:
  "\<not> f_gt binary64 (f_lit binary64 0) (f_lit binary64 0)
   \<and> rawBytes_of (StringObject ''A B'') = Some ''A B''
   \<and> amended_threshold binary64 (textState extractor_midline) = 3 / 2
   \<and> buffer (handleText binary64 extractor_midline (StringObject ''A B'')) = ''x A B''"
proof -
  have z: "\<not> f_gt binary64 (f_lit binary64 0) (f_lit binary64 0)"
    by simp
  have r: "rawBytes_of (StringObject ''A B'') = Some ''A B''"
    by (simp add: rawBytes_of_def)
  have t: "amended_threshold binary64 (textState extractor_midline) = 3 / 2"
    by (simp add: amended_threshold_def user_space_width_def extractor_midline_def
        extractor_F1_def font_F1_def binary64_text_state)
  have s: "separator binary64 (3 / 2) extractor_midline 100 700 = '' ''"
    by (simp add: separator_def extractor_midline_def extractor_F1_def binary64_text_state)
  have b: "buffer extractor_midline = ''x''"
    by (simp add: extractor_midline_def)
  from show_string_spacing [OF z r, where e = extractor_midline] z r t show ?thesis
    by (simp add: midline_start s b midline_decoded)
qed

text \<open>Claim C2 as stated fails where the font is known and the space width in user space
  is negative: after \<^verbatim>\<open>BT /F1 10 Tf (A) Tj -100 Tz 6 0 Td\<close> (lemma \<open>mirrored_reached\<close>) the
  space width in user space is -2.5; the code uses the threshold \<open>10 \<times> 0.2\<close>, which is 2
  in binary64, and the claim \<open>-2.5 \<times> 0.5 = -1.25\<close>; for the gap of 1 before \<^verbatim>\<open>(B) Tj\<close>
  the code appends no space, the claim one.\<close>

lemma round64_ten_fifths: "round64 (10 * round64 (1 / 5)) = 2"
  by (simp add: round64_fifth round64_binade_pos [of 1] rne_def)

lemma mirrored_reached:
  "processOps binary64 (freshExtractor\<lparr>fonts := [(''/F1'', font_F1)]\<rparr>) ops_mirrored
     = Inr extractor_mirrored"
  apply (simp add: ops_mirrored_def)
  apply (subst processOp.simps, simp)
  apply (subst processOp.simps, simp add: operand_def freshExtractor_def binary64_fresh)
  apply (subst processOp.simps, simp add: handleText_def rawBytes_of_def Let_def)
  apply (subst processOp.simps, simp add: operand_def)
  apply (subst processOp.simps, simp add: operand_def Let_def)
  apply (simp add: extractor_mirrored_def freshExtractor_def binary64_fresh binary64_text_state
      binary64_identity number_def Mult_def translate_def detectSpacing_def decodeText_def
      totalWidth_def font_F1_def)
  done

lemma mirrored_start:
  "m4 (Mult binary64 (TM (textState extractor_mirrored)) (CTM (gState extractor_mirrored))) = 6"
  "m5 (Mult binary64 (TM (textState extractor_mirrored)) (CTM (gState extractor_mirrored))) = 0"
  by (simp_all add: extractor_mirrored_def freshExtractor_def binary64_fresh Mult_def)

lemma mirrored_space_width:
  "user_space_width binary64 font_F1 (textState extractor_mirrored) = - (5 / 2)"
  by (simp add: user_space_width_def extractor_mirrored_def font_F1_def)

lemma mirrored_threshold: "threshold binary64 (textState extractor_mirrored) = 2"
proof -
  have "spaceWidth binary64 (textState extractor_mirrored) = - (5 / 2)"
    using mirrored_space_width
    by (simp add: spaceWidth_def user_space_width_def extractor_mirrored_def)
  moreover have "FontSize (textState extractor_mirrored) = 10"
    by (simp add: extractor_mirrored_def)
  ultimately show ?thesis
    using round64_ten_fifths by (simp add: threshold_def)
qed

lemma mirrored_claimed_threshold:
  "claimed_threshold binary64 (textState extractor_mirrored) = - (5 / 4)"
proof -
  have "Font (textState extractor_mirrored) = Some font_F1"
    by (simp add: extractor_mirrored_def)
  then show ?thesis
    by (simp add: claimed_threshold_def mirrored_space_width)
qed

theorem show_string_spacing_counterexample:
  "rawBytes_of (StringObject ''B'') = Some ''B''
   \<and> user_space_width binary64 font_F1 (textState extractor_mirrored) = - (5 / 2)
   \<and> threshold binary64 (textState extractor_mirrored) = 2
   \<and> claimed_threshold binary64 (textState extractor_mirrored) = - (5 / 4)
   \<and> buffer (handleText binary64 extractor_mirrored (StringObject ''B'')) = ''AB''
   \<and> buffer extractor_mirrored
       @ separator binary64 (claimed_threshold binary64 (textState extractor_mirrored))
           extractor_mirrored
           (m4 (Mult binary64 (TM (textState extractor_mirrored))
                  (CTM (gState extractor_mirrored))))
           (m5 (Mult binary64 (TM (textState extractor_mirrored))
                  (CTM (gState extractor_mirrored))))
       @ decodeText (textState extractor_mirrored) ''B'' = ''A B''"
proof -
  have r: "rawBytes_of (StringObject ''B'') = Some ''B''"
    by (simp add: rawBytes_of_def)
  have d: "decodeText (textState extractor_mirrored) ''B'' = ''B''"
    by (simp add: decodeText_def extractor_mirrored_def font_F1_def)
  have st: "FontSize (textState extractor_mirrored) = 10" "lastX extractor_mirrored = 5"
    "lastY extractor_mirrored = 0" "buffer extractor_mirrored = ''A''"
    by (simp_all add: extractor_mirrored_def)
  have code: "detectSpacing binary64 extractor_mirrored 6 0 = ''A''"
    by (simp add: detectSpacing_def mirrored_threshold st)
  have claim: "separator binary64 (- (5 / 4)) extractor_mirrored 6 0 = '' ''"
    by (simp add: separator_def st)
  have "buffer (handleText binary64 extractor_mirrored (StringObject ''B'')) = ''AB''"
    by (simp add: handleText_buffer [OF r] mirrored_start d code)
  then show ?thesis
    by (simp add: r mirrored_space_width mirrored_threshold mirrored_claimed_threshold
        mirrored_start d claim st)
qed

text \<open>
  Claim C3, on the code. The claim says that a byte without a CMap entry, and every byte
  when the CMap is empty or no font is set, is emitted as a Latin-1 character. The byte
  0xE9 comes out as the UTF-8 encoding of U+00E9 where a non-empty CMap misses it (line
  333), and as the raw byte 0xE9 where there is no font or the CMap is empty (line 337),
  whatever the arithmetic.
\<close>

theorem high_byte_decoding:
  "buffer (handleText ar (newExtractorState ar []) (StringObject [CHR 0xE9])) = [CHR 0xE9]
   \<and> buffer (handleText ar
        ((newExtractorState ar [])\<lparr>textState := (NewTextState ar)\<lparr>Font := Some (font_F3 ar)\<rparr>\<rparr>)
        (StringObject [CHR 0xE9])) = [CHR 0xE9]
   \<and> buffer (handleText binary64
        (freshExtractor\<lparr>textState := (NewTextState binary64)\<lparr>Font := Some font_F1\<rparr>\<rparr>)
        (StringObject [CHR 0xE9])) = [CHR 0xE9]
   \<and> buffer (handleText ar
        ((newExtractorState ar [])\<lparr>textState := (NewTextState ar)\<lparr>Font := Some (font_F2 ar)\<rparr>\<rparr>)
        (StringObject [CHR 0xE9])) = [CHR 0xC3, CHR 0xA9]"
proof -
  have k: "Sprintf_04X 233 = ''00E9''"
    by code_simp
  have u: "string_of_byte (CHR 0xE9) = [CHR 0xC3, CHR 0xA9]"
    by code_simp
  have r: "rawBytes_of (StringObject [CHR 0xE9]) = Some [CHR 0xE9]"
    by (simp add: rawBytes_of_def)
  show ?thesis
    by (simp add: handleText_buffer [OF r] detectSpacing_empty decodeText_def
        freshExtractor_def newExtractorState_def NewTextState_def font_F1_def font_F3_def
        font_F2_def k u)
qed

text \<open>The two paths agree on bytes below 0x80.\<close>

lemma decode_ascii:
  "\<forall>b \<in> set rawBytes. (of_char b :: nat) < 128 \<Longrightarrow>
   concat (map string_of_byte rawBytes) = rawBytes"
  by (induction rawBytes) (simp_all add: string_of_byte_def)

section \<open>Properties of the content-stream parser\<close>

lemma scanEI_no_E:
  "CHR ''E'' \<notin> set data \<Longrightarrow> isWhitespace a \<or> isDelimiter a \<Longrightarrow>
   scanEI (data @ CHR ''E'' # CHR ''I'' # a # rest) = (None, a # rest)"
proof (induction data)
  case Nil
  then show ?case by simp
next
  case (Cons b data)
  then have "b \<noteq> CHR ''E''" by auto
  moreover obtain c cs where "data @ CHR ''E'' # CHR ''I'' # a # rest = c # cs"
    by (cases data) auto
  ultimately show ?case using Cons by simp
qed

lemmas example_lexer_defs =
  exampleLexer_def exampleReadObject_def isWhitespace_def isDelimiter_def regularByte_def
  keyword_of_def

text \<open>
  Claim C5, on the code. The claim says that the data of an inline image ends at the
  first \<^verbatim>\<open>EI\<close> that is both preceded and followed by whitespace or a delimiter (or the
  end of the input), as the comment at line 193 does. The scan looks only at the byte
  after \<^verbatim>\<open>EI\<close>: over image data that holds no \<^verbatim>\<open>E\<close> before it, \<open>skipInlineImage\<close>
  stops at the first \<^verbatim>\<open>EI\<close> that whitespace or a delimiter follows, whatever byte
  precedes it, a regular one included.
\<close>

theorem skipInlineImage_ignores_byte_before_EI:
  "readImageDict lx (lexer p) []
     = Some (Inr imageDict, CHR 0x0A # data @ CHR ''E'' # CHR ''I'' # a # rest) \<Longrightarrow>
   CHR ''E'' \<notin> set data \<Longrightarrow> isWhitespace a \<or> isDelimiter a \<Longrightarrow>
   skipInlineImage lx p
     = Some (None, p\<lparr>lexer := a # rest, operands := [DictionaryObject imageDict]\<rparr>)"
  by (simp add: skipInlineImage_def consumeEOL_def scanEI_no_E)

text \<open>In the example the image ends after \<^verbatim>\<open>aEI\<close>: \<open>Next\<close> emits the operation
  \<^verbatim>\<open>INLINE_IMAGE\<close> and the rest of the image data is left to be read as operators.\<close>

lemma example_dict:
  "readImageDict exampleLexer (drop 2 inlineImageStream) []
    = Some (Inr [(''/CS'', NameObject ''/G'')],
            CHR 0x0A # ''a'' @ CHR ''E'' # CHR ''I'' # CHR '' '' # ''b'' @ [CHR 0x0A] @ ''EI''
              @ [CHR 0x0A] @ ''Q'')"
  apply (simp add: inlineImageStream_def)
  apply (subst readImageDict.simps)
  apply (simp add: example_lexer_defs)
  apply (subst readImageDict.simps)
  apply (simp add: example_lexer_defs)
  done

theorem skipInlineImage_ignores_byte_before_EI_witness:
  "readImageDict (exampleLexer :: real Lexer) (drop 2 inlineImageStream) []
     = Some (Inr [(''/CS'', NameObject ''/G'')],
             CHR 0x0A # ''a'' @ CHR ''E'' # CHR ''I'' # CHR '' '' # ''b'' @ [CHR 0x0A] @ ''EI''
               @ [CHR 0x0A] @ ''Q'')
   \<and> CHR ''E'' \<notin> set ''a'' \<and> isWhitespace (CHR '' '')
   \<and> Next (exampleLexer :: real Lexer) (NewContentStreamParser inlineImageStream)
     = Some (Inr \<lparr>Operator = ''INLINE_IMAGE'',
                  Operands = [DictionaryObject [(''/CS'', NameObject ''/G'')]]\<rparr>,
             \<lparr>lexer = '' b'' @ [CHR 0x0A] @ ''EI'' @ [CHR 0x0A] @ ''Q'', operands = [],
              eof = False\<rparr>)"
proof -
  let ?lx = "exampleLexer :: real Lexer"
  let ?p = "\<lparr>lexer = drop 2 inlineImageStream, operands = [], eof = False\<rparr>
              :: real ContentStreamParser"
  have d: "readImageDict ?lx (lexer ?p) []
     = Some (Inr [(''/CS'', NameObject ''/G'')],
             CHR 0x0A # ''a'' @ CHR ''E'' # CHR ''I'' # CHR '' '' # ''b'' @ [CHR 0x0A] @ ''EI''
               @ [CHR 0x0A] @ ''Q'')"
    using example_dict by simp
  have w: "isWhitespace (CHR '' '') \<or> isDelimiter (CHR '' '')"
    by (simp add: isWhitespace_def)
  have e: "CHR ''E'' \<notin> set ''a''" by simp
  have skip: "skipInlineImage ?lx ?p
      = Some (None, ?p\<lparr>lexer := CHR '' '' # ''b'' @ [CHR 0x0A] @ ''EI'' @ [CHR 0x0A] @ ''Q'',
                        operands := [DictionaryObject [(''/CS'', NameObject ''/G'')]]\<rparr>)"
    by (rule skipInlineImage_ignores_byte_before_EI [OF d e w])
  have first: "ReadObject ?lx (skipWhitespace ?lx inlineImageStream)
      = (Inr (KeywordObject ''BI''), drop 2 inlineImageStream)"
    by (simp add: inlineImageStream_def example_lexer_defs)
  have ne: "skipWhitespace ?lx inlineImageStream \<noteq> []"
    by (simp add: inlineImageStream_def example_lexer_defs)
  have "Next ?lx (NewContentStreamParser inlineImageStream)
     = Some (Inr \<lparr>Operator = ''INLINE_IMAGE'',
                  Operands = [DictionaryObject [(''/CS'', NameObject ''/G'')]]\<rparr>,
             \<lparr>lexer = '' b'' @ [CHR 0x0A] @ ''EI'' @ [CHR 0x0A] @ ''Q'', operands = [],
              eof = False\<rparr>)"
    unfolding Next_def NewContentStreamParser_def
    by (subst Next_loop.simps) (simp add: first ne skip keyword_of_def)
  with d e show ?thesis by (simp add: isWhitespace_def)
qed

section \<open>Properties of ExtractText\<close>

lemma NewExtractor_fresh:
  "NewExtractor ar x rd pg = Inr e \<Longrightarrow> buffer e = [] \<and> page e = pg"
  by (auto simp: NewExtractor_def newExtractorState_def split: option.splits sum.splits)

lemma map_filter_streamElements:
  "List.map_filter (\<lambda>ref. stream_of (Resolve rd ref)) arr = streamElements rd arr"
  by (induction arr) (auto simp: List.map_filter_def streamElements_def)

lemma ExtractText_textOfStreams:
  "ExtractText ar x rd e
     = textOfStreams ar x e (contentStreams rd (Resolve rd (index_dict (page e) ''/Contents'')))"
  by (simp add: ExtractText_def textOfStreams_def)

text \<open>
  Claim C10. On a freshly built extractor: if the \<^verbatim>\<open>/Contents\<close> entry of the page
  resolves to neither a stream nor an array, \<open>ExtractText\<close> returns the empty string with
  no error; if it resolves to an array, the elements that do not resolve to a stream are
  skipped and the remaining streams are parsed and run in order.
\<close>

theorem ExtractText_contents:
  "NewExtractor ar x rd pg = Inr e \<Longrightarrow> Resolve rd (index_dict pg ''/Contents'') = contents \<Longrightarrow>
   ((\<forall>arr. contents \<noteq> ArrayObject arr) \<and> stream_of contents = None
      \<longrightarrow> ExtractText ar x rd e = Some (Inr []))
   \<and> (\<forall>arr. contents = ArrayObject arr
      \<longrightarrow> ExtractText ar x rd e = textOfStreams ar x e (streamElements rd arr))"
proof -
  assume new: "NewExtractor ar x rd pg = Inr e"
    and c: "Resolve rd (index_dict pg ''/Contents'') = contents"
  from new have fresh: "buffer e = []" "page e = pg"
    by (simp_all add: NewExtractor_fresh)
  have neither: "ExtractText ar x rd e = Some (Inr [])"
    if "\<forall>arr. contents \<noteq> ArrayObject arr" "stream_of contents = None"
    using that c fresh
    by (cases contents)
       (simp_all add: ExtractText_textOfStreams textOfStreams_def contentStreams_def stream_of_def)
  have array: "ExtractText ar x rd e = textOfStreams ar x e (streamElements rd arr)"
    if "contents = ArrayObject arr" for arr
    using that c fresh
    by (simp add: ExtractText_textOfStreams contentStreams_def map_filter_streamElements)
  from neither array show ?thesis by blast
qed

text \<open>The example pages.\<close>

lemma parse_Wor:
  "Parse exampleLexer ''BT (Wor) Tj''
     = Some (Inr [\<lparr>Operator = ''BT'', Operands = []\<rparr>,
                  \<lparr>Operator = ''Tj'', Operands = [StringObject ''Wor'']\<rparr>])"
  by (simp add: Parse_def Parse_loop.simps example_lexer_defs)

lemma parse_ld:
  "Parse exampleLexer ''(ld) Tj ET''
     = Some (Inr [\<lparr>Operator = ''Tj'', Operands = [StringObject ''ld'']\<rparr>,
                  \<lparr>Operator = ''ET'', Operands = []\<rparr>])"
  by (simp add: Parse_def Parse_loop.simps example_lexer_defs)

lemma parse_Hello:
  "Parse exampleLexer ''BT (Hello) Tj ET''
     = Some (Inr [\<lparr>Operator = ''BT'', Operands = []\<rparr>,
                  \<lparr>Operator = ''Tj'', Operands = [StringObject ''Hello'']\<rparr>,
                  \<lparr>Operator = ''ET'', Operands = []\<rparr>])"
  by (simp add: Parse_def Parse_loop.simps example_lexer_defs)

lemma processOp_BT:
  "processOp ar e \<lparr>Operator = ''BT'', Operands = args\<rparr> =
     Inr (e\<lparr>textState := (textState e)\<lparr>TM := IdentityMatrix ar, TLM := IdentityMatrix ar\<rparr>\<rparr>)"
  by (subst processOp.simps) simp

lemma processOp_ET:
  "processOp ar e \<lparr>Operator = ''ET'', Operands = args\<rparr> = Inr e"
  by (subst processOp.simps) simp

text \<open>Before a font and a size are set the advance width is 0 and no separator is
  appended.\<close>

lemma show_without_font:
  "handleText binary64 ((newExtractorState binary64 pg)\<lparr>buffer := b\<rparr>) (StringObject s)
     = (newExtractorState binary64 pg)\<lparr>buffer := b @ s\<rparr>"
  by (simp add: handleText_def rawBytes_of_def Let_def binary64_fresh binary64_text_state
      Mult_def detectSpacing_def threshold_def spaceWidth_def decodeText_def
      totalWidth_def heuristicWidth_def)

lemma fresh_BT:
  "(newExtractorState ar pg)
     \<lparr>textState := (textState (newExtractorState ar pg))
        \<lparr>TM := IdentityMatrix ar, TLM := IdentityMatrix ar\<rparr>\<rparr>
     = newExtractorState ar pg"
  by (simp add: newExtractorState_def NewTextState_def)

lemma fresh_buffer: "(newExtractorState ar pg)\<lparr>buffer := []\<rparr> = newExtractorState ar pg"
  by (simp add: newExtractorState_def)

lemma text_of_page1:
  "textOfStreams binary64 exampleExternals (newExtractorState binary64 pg)
     [([], ''BT (Hello) Tj ET'')] = Some (Inr ''Hello'')"
proof -
  have "processOps binary64 (newExtractorState binary64 pg)
          [\<lparr>Operator = ''BT'', Operands = []\<rparr>,
           \<lparr>Operator = ''Tj'', Operands = [StringObject ''Hello'']\<rparr>,
           \<lparr>Operator = ''ET'', Operands = []\<rparr>]
        = Inr ((newExtractorState binary64 pg)\<lparr>buffer := ''Hello''\<rparr>)"
    using show_without_font [where pg = pg and b = "[]" and s = "''Hello''"]
    by (simp add: processOp_BT processOp_Tj processOp_ET fresh_BT fresh_buffer)
  then show ?thesis
    by (simp add: textOfStreams_def exampleExternals_def parse_Hello del: processOps.simps)
qed

lemma text_of_page3:
  "textOfStreams binary64 exampleExternals (newExtractorState binary64 pg)
     [([], ''BT (Wor) Tj''), ([], ''(ld) Tj ET'')] = Some (Inr ''World'')"
proof -
  have a: "processOps binary64 (newExtractorState binary64 pg)
          [\<lparr>Operator = ''BT'', Operands = []\<rparr>,
           \<lparr>Operator = ''Tj'', Operands = [StringObject ''Wor'']\<rparr>]
        = Inr ((newExtractorState binary64 pg)\<lparr>buffer := ''Wor''\<rparr>)"
    using show_without_font [where pg = pg and b = "[]" and s = "''Wor''"]
    by (simp add: processOp_BT processOp_Tj fresh_BT fresh_buffer)
  have b: "processOps binary64 ((newExtractorState binary64 pg)\<lparr>buffer := ''Wor''\<rparr>)
          [\<lparr>Operator = ''Tj'', Operands = [StringObject ''ld'']\<rparr>,
           \<lparr>Operator = ''ET'', Operands = []\<rparr>]
        = Inr ((newExtractorState binary64 pg)\<lparr>buffer := ''World''\<rparr>)"
    using show_without_font [where pg = pg and b = "''Wor''" and s = "''ld''"]
    by (simp add: processOp_Tj processOp_ET)
  show ?thesis
    by (simp add: textOfStreams_def exampleExternals_def parse_Wor parse_ld a b
        del: processOps.simps)
qed

lemma example_fresh:
  "NewExtractor binary64 exampleExternals exampleReader examplePage1
     = Inr (newExtractorState binary64 examplePage1)"
  "NewExtractor binary64 exampleExternals exampleReader examplePage3
     = Inr (newExtractorState binary64 examplePage3)"
  "NewExtractor binary64 exampleExternals exampleReader examplePage4
     = Inr (newExtractorState binary64 examplePage4)"
  by (simp_all add: NewExtractor_def examplePage1_def examplePage3_def examplePage4_def
      index_dict_def exampleReader_def exampleResolve_def dict_of_def)

lemma example_streams:
  "streamElements exampleReader [IndirectObject 11 0, IndirectObject 99 0, IndirectObject 12 0]
     = [([], ''BT (Wor) Tj''), ([], ''(ld) Tj ET'')]"
  by (simp add: streamElements_def exampleReader_def exampleResolve_def stream_of_def)

theorem ExtractText_contents_witness:
  "NewExtractor binary64 exampleExternals exampleReader examplePage4
     = Inr (newExtractorState binary64 examplePage4)
   \<and> Resolve exampleReader (index_dict examplePage4 ''/Contents'') = NameObject ''/None''
   \<and> ExtractText binary64 exampleExternals exampleReader (newExtractorState binary64 examplePage4)
       = Some (Inr [])
   \<and> NewExtractor binary64 exampleExternals exampleReader examplePage3
       = Inr (newExtractorState binary64 examplePage3)
   \<and> Resolve exampleReader (index_dict examplePage3 ''/Contents'')
       = ArrayObject [IndirectObject 11 0, IndirectObject 99 0, IndirectObject 12 0]
   \<and> streamElements exampleReader [IndirectObject 11 0, IndirectObject 99 0, IndirectObject 12 0]
       = [([], ''BT (Wor) Tj''), ([], ''(ld) Tj ET'')]
   \<and> ExtractText binary64 exampleExternals exampleReader (newExtractorState binary64 examplePage3)
       = Some (Inr ''World'')"
proof -
  have c4: "Resolve exampleReader (index_dict examplePage4 ''/Contents'') = NameObject ''/None''"
    by (simp add: examplePage4_def index_dict_def exampleReader_def exampleResolve_def)
  have c3: "Resolve exampleReader (index_dict examplePage3 ''/Contents'')
       = ArrayObject [IndirectObject 11 0, IndirectObject 99 0, IndirectObject 12 0]"
    by (simp add: examplePage3_def index_dict_def exampleReader_def exampleResolve_def)
  from ExtractText_contents [OF example_fresh(3) c4]
  have t4: "ExtractText binary64 exampleExternals exampleReader
              (newExtractorState binary64 examplePage4) = Some (Inr [])"
    by (simp add: stream_of_def)
  from ExtractText_contents [OF example_fresh(2) c3]
  have t3: "ExtractText binary64 exampleExternals exampleReader
              (newExtractorState binary64 examplePage3) = Some (Inr ''World'')"
    by (simp add: example_streams text_of_page3)
  from c4 c3 t4 t3 example_fresh example_streams show ?thesis by simp
qed

section \<open>Properties of the loader\<close>

lemma loadPage_Inr:
  "loadPage ar x rd i = Some (Inr pg) \<Longrightarrow>
     PageNumber pg = i + 1 \<and> CharCount pg = int (length (Content pg))"
  by (auto simp: loadPage_def split: sum.splits option.splits)

lemma loadedPage_Some:
  "loadedPage ar x rd i = Some pg \<Longrightarrow>
     PageNumber pg = i + 1 \<and> CharCount pg = int (length (Content pg))"
  by (auto simp: loadedPage_def dest: loadPage_Inr split: sum.splits option.splits)

lemma loadPages_result:
  "loadPages ar x rd i acc = Some (Inr pages) \<Longrightarrow>
     pages = acc @ List.map_filter (loadedPage ar x rd) [i..NumPages rd - 1]"
proof (induction ar x rd i acc rule: loadPages.induct)
  case (1 ar x rd i acc)
  show ?case
  proof (cases "i < NumPages rd")
    case False
    with "1.prems" show ?thesis
      by (subst (asm) loadPages.simps) (simp add: List.map_filter_def)
  next
    case True
    then have up: "[i..NumPages rd - 1] = i # [i + 1..NumPages rd - 1]"
      by (simp add: upto_rec1)
    from "1.prems" True
    have step: "(case loadPage ar x rd i of
           None \<Rightarrow> None
         | Some (Inl (Panic m)) \<Rightarrow> Some (Inl (Panic m))
         | Some (Inl (Failure err)) \<Rightarrow> loadPages ar x rd (i + 1) acc
         | Some (Inr pg) \<Rightarrow> loadPages ar x rd (i + 1) (acc @ [pg])) = Some (Inr pages)"
      by (subst (asm) loadPages.simps) simp
    show ?thesis
    proof (cases "loadPage ar x rd i")
      case None
      with step show ?thesis by simp
    next
      case (Some r)
      show ?thesis
      proof (cases r)
        case (Inl flt)
        show ?thesis
        proof (cases flt)
          case (Failure err)
          with step Some Inl have "loadPages ar x rd (i + 1) acc = Some (Inr pages)" by simp
          from "1.IH"(1) [OF True Some Inl Failure this]
          show ?thesis using Some Inl Failure
            by (simp add: up List.map_filter_simps loadedPage_def)
        next
          case (Panic m)
          with step Some Inl show ?thesis by simp
        qed
      next
        case (Inr pg)
        with step Some have "loadPages ar x rd (i + 1) (acc @ [pg]) = Some (Inr pages)" by simp
        from "1.IH"(2) [OF True Some Inr this]
        show ?thesis using Some Inr
          by (simp add: up List.map_filter_simps loadedPage_def)
      qed
    qed
  qed
qed

lemma LoadPDF_Inr:
  assumes "LoadPDF ar x path = Some (Inr doc)"
  shows "\<exists>f rd. Open x path = Inr f \<and> NewReader x f = Inr rd \<and> 0 \<le> NumPages rd
           \<and> doc = \<lparr>Metadata = loadMetadata rd, Pages = emittedPages ar x rd\<rparr>"
proof -
  from assms obtain f where f: "Open x path = Inr f"
    by (auto simp: LoadPDF_def split: sum.splits)
  from assms f obtain rd where rd: "NewReader x f = Inr rd"
    by (auto simp: LoadPDF_def split: sum.splits fault.splits)
  from assms f rd have n: "0 \<le> NumPages rd"
    by (auto simp: LoadPDF_def split: if_splits)
  from assms f rd n obtain pages where p: "loadPages ar x rd 0 [] = Some (Inr pages)"
      and d: "doc = \<lparr>Metadata = loadMetadata rd, Pages = pages\<rparr>"
    by (auto simp: LoadPDF_def split: option.splits sum.splits)
  from loadPages_result [OF p] have "pages = emittedPages ar x rd"
    by (simp add: emittedPages_def)
  with f rd n d show ?thesis by blast
qed

lemma emittedPages_numbers:
  "map PageNumber (emittedPages ar x rd)
     = map (\<lambda>i. i + 1) (filter (\<lambda>i. loadedPage ar x rd i \<noteq> None) [0..NumPages rd - 1])"
proof -
  have "map PageNumber (List.map_filter (loadedPage ar x rd) is)
     = map (\<lambda>i. i + 1) (filter (\<lambda>i. loadedPage ar x rd i \<noteq> None) is)" for "is"
    by (induction "is")
       (auto simp: List.map_filter_simps dest: loadedPage_Some split: option.splits)
  then show ?thesis by (simp add: emittedPages_def)
qed

lemma emittedPages_length:
  "0 \<le> NumPages rd \<Longrightarrow> length (emittedPages ar x rd) \<le> nat (NumPages rd)"
proof -
  assume "0 \<le> NumPages rd"
  have "length (emittedPages ar x rd) = length (map PageNumber (emittedPages ar x rd))"
    by simp
  also have "\<dots> \<le> length [0..NumPages rd - 1]"
    unfolding emittedPages_numbers length_map by (rule length_filter_le)
  also have "\<dots> = nat (NumPages rd)"
    using \<open>0 \<le> NumPages rd\<close> by simp
  finally show ?thesis .
qed

lemma emittedPages_increasing: "sorted_wrt (<) (map PageNumber (emittedPages ar x rd))"
proof -
  have "sorted_wrt (<) [0..NumPages rd - 1]"
    by (simp add: strict_sorted_iff)
  then have "sorted_wrt (<) (filter (\<lambda>i. loadedPage ar x rd i \<noteq> None) [0..NumPages rd - 1])"
    by (rule sorted_wrt_filter)
  then have "sorted_wrt (\<lambda>a b. a + 1 < b + 1)
      (filter (\<lambda>i. loadedPage ar x rd i \<noteq> None) [0..NumPages rd - 1])"
    by (rule sorted_wrt_mono_rel [rotated]) simp
  then show ?thesis
    unfolding emittedPages_numbers sorted_wrt_map .
qed

lemma emittedPages_range:
  "p \<in> set (emittedPages ar x rd) \<Longrightarrow> 1 \<le> PageNumber p \<and> PageNumber p \<le> NumPages rd"
proof -
  assume "p \<in> set (emittedPages ar x rd)"
  then have "PageNumber p \<in> set (map PageNumber (emittedPages ar x rd))" by simp
  then show ?thesis unfolding emittedPages_numbers by auto
qed

lemma emittedPages_char_count:
  "p \<in> set (emittedPages ar x rd) \<Longrightarrow> CharCount p = int (length (Content p))"
  by (auto simp: emittedPages_def List.map_filter_def dest: loadedPage_Some split: option.splits)

text \<open>\<open>LoadPDF\<close> returns a document whenever the file opens, the reader is built and no
  page panics or runs forever.\<close>

lemma loadPages_returns:
  "(\<And>j. i \<le> j \<Longrightarrow> j < NumPages rd \<Longrightarrow>
        loadPage ar x rd j \<noteq> None \<and> (\<forall>m. loadPage ar x rd j \<noteq> Some (Inl (Panic m)))) \<Longrightarrow>
   \<exists>pages. loadPages ar x rd i acc = Some (Inr pages)"
proof (induction ar x rd i acc rule: loadPages.induct)
  case (1 ar x rd i acc)
  show ?case
  proof (cases "i < NumPages rd")
    case False
    then show ?thesis by (subst loadPages.simps) simp
  next
    case True
    from "1.prems" [of i] True obtain r where r: "loadPage ar x rd i = Some r"
      and np: "\<And>m. r \<noteq> Inl (Panic m)" by auto
    have later: "\<And>j. i + 1 \<le> j \<Longrightarrow> j < NumPages rd \<Longrightarrow>
        loadPage ar x rd j \<noteq> None \<and> (\<forall>m. loadPage ar x rd j \<noteq> Some (Inl (Panic m)))"
      using "1.prems" by simp
    show ?thesis
    proof (cases r)
      case (Inl flt)
      with np obtain err where flt: "flt = Failure err" by (cases flt) auto
      from "1.IH"(1) [OF True r Inl flt later]
      show ?thesis using True r Inl flt by (subst loadPages.simps) simp
    next
      case (Inr pg)
      from "1.IH"(2) [OF True r Inr later]
      show ?thesis using True r Inr by (subst loadPages.simps) simp
    qed
  qed
qed

lemma LoadPDF_returns:
  assumes "Open x path = Inr f" and "NewReader x f = Inr rd" and "0 \<le> NumPages rd"
    and "\<And>j. 0 \<le> j \<Longrightarrow> j < NumPages rd \<Longrightarrow>
        loadPage ar x rd j \<noteq> None \<and> (\<forall>m. loadPage ar x rd j \<noteq> Some (Inl (Panic m)))"
  shows "LoadPDF ar x path
           = Some (Inr \<lparr>Metadata = loadMetadata rd, Pages = emittedPages ar x rd\<rparr>)"
proof -
  from loadPages_returns [of 0 rd ar x "[]"] assms(4)
  obtain pages where p: "loadPages ar x rd 0 [] = Some (Inr pages)" by blast
  from loadPages_result [OF p] have "pages = emittedPages ar x rd"
    by (simp add: emittedPages_def)
  with p assms(1-3) show ?thesis by (simp add: LoadPDF_def)
qed

text \<open>Every document that \<open>LoadPDF\<close> returns holds at most \<open>NumPages\<close> page records, and
  their page numbers form a strictly increasing subsequence of \<open>1..NumPages\<close>: the
  records are those of the pages whose retrieval, extractor construction and extraction
  returned no error, in order.\<close>

lemma returned_page_numbers:
  "Open x path = Inr f \<Longrightarrow> NewReader x f = Inr rd \<Longrightarrow> LoadPDF ar x path = Some (Inr doc) \<Longrightarrow>
   Pages doc = emittedPages ar x rd
   \<and> length (Pages doc) \<le> nat (NumPages rd)
   \<and> sorted_wrt (<) (map PageNumber (Pages doc))
   \<and> (\<forall>p \<in> set (Pages doc). 1 \<le> PageNumber p \<and> PageNumber p \<le> NumPages rd)
   \<and> map PageNumber (Pages doc)
       = map (\<lambda>i. i + 1) (filter (\<lambda>i. loadedPage ar x rd i \<noteq> None) [0..NumPages rd - 1])"
proof -
  assume o: "Open x path = Inr f" and r: "NewReader x f = Inr rd"
    and l: "LoadPDF ar x path = Some (Inr doc)"
  from LoadPDF_Inr [OF l] o r have n: "0 \<le> NumPages rd"
    and d: "Pages doc = emittedPages ar x rd" by auto
  show ?thesis
    using emittedPages_length [OF n, of ar x] emittedPages_increasing [of ar x rd]
      emittedPages_range [of _ ar x rd] emittedPages_numbers [of ar x rd]
    by (simp add: d)
qed

text \<open>The example document.\<close>

lemma example_contents:
  "contentStreams exampleReader (Resolve exampleReader (index_dict examplePage1 ''/Contents''))
     = [([], ''BT (Hello) Tj ET'')]"
  "contentStreams exampleReader (Resolve exampleReader (index_dict examplePage3 ''/Contents''))
     = [([], ''BT (Wor) Tj''), ([], ''(ld) Tj ET'')]"
  by (simp_all add: contentStreams_def examplePage1_def examplePage3_def index_dict_def
      exampleReader_def exampleResolve_def List.map_filter_def stream_of_def)

lemma example_media_box:
  "mediaBox binary64 examplePage1 = (612, 792)" "mediaBox binary64 examplePage3 = (0, 0)"
  by (simp_all add: mediaBox_def examplePage1_def examplePage3_def index_dict_def)

lemma example_pages:
  "loadPage binary64 exampleExternals exampleReader 0
     = Some (Inr \<lparr>PageNumber = 1, Content = ''Hello'', CharCount = 5, Width = 612,
                  Height = 792\<rparr>)"
  "loadPage binary64 exampleExternals exampleReader 1 = Some (Inl (Failure ''page not found''))"
  "loadPage binary64 exampleExternals exampleReader 2
     = Some (Inr \<lparr>PageNumber = 3, Content = ''World'', CharCount = 5, Width = 0, Height = 0\<rparr>)"
proof -
  have g: "GetPage exampleReader 0 = Inr examplePage1"
    "GetPage exampleReader 1 = Inl (Failure ''page not found'')"
    "GetPage exampleReader 2 = Inr examplePage3"
    by (simp_all add: exampleReader_def)
  have p: "page (newExtractorState binary64 pg) = pg" for pg
    by (simp add: newExtractorState_def)
  show "loadPage binary64 exampleExternals exampleReader 0
     = Some (Inr \<lparr>PageNumber = 1, Content = ''Hello'', CharCount = 5, Width = 612,
                  Height = 792\<rparr>)"
    by (simp add: loadPage_def g example_fresh ExtractText_textOfStreams p example_contents
        text_of_page1 example_media_box)
  show "loadPage binary64 exampleExternals exampleReader 1
     = Some (Inl (Failure ''page not found''))"
    by (simp add: loadPage_def g)
  show "loadPage binary64 exampleExternals exampleReader 2
     = Some (Inr \<lparr>PageNumber = 3, Content = ''World'', CharCount = 5, Width = 0, Height = 0\<rparr>)"
    by (simp add: loadPage_def g example_fresh ExtractText_textOfStreams p example_contents
        text_of_page3 example_media_box)
qed

lemma example_LoadPDF:
  "LoadPDF binary64 exampleExternals ''example.pdf'' = Some (Inr exampleDocument)"
proof -
  have n: "NumPages exampleReader = 3"
    by (simp add: exampleReader_def)
  have "loadPages binary64 exampleExternals exampleReader 0 []
      = Some (Inr (Pages exampleDocument))"
    apply (subst loadPages.simps, simp add: n example_pages)
    apply (subst loadPages.simps, simp add: n example_pages)
    apply (subst loadPages.simps, simp add: n example_pages)
    apply (subst loadPages.simps, simp add: n example_pages exampleDocument_def)
    done
  moreover have "loadMetadata exampleReader = Metadata exampleDocument"
    by (simp add: loadMetadata_def exampleReader_def info_string_def index_dict_def string_of_def
        exampleDocument_def)
  moreover have "Open exampleExternals ''example.pdf'' = Inr ''%PDF-1.4''"
    "NewReader exampleExternals ''%PDF-1.4'' = Inr exampleReader"
    by (simp_all add: exampleExternals_def)
  ultimately show ?thesis
    by (simp add: LoadPDF_def n exampleDocument_def)
qed

lemma example_page_numbers:
  "map PageNumber (emittedPages binary64 exampleExternals exampleReader) = [1, 3]"
proof -
  have o: "Open exampleExternals ''example.pdf'' = Inr ''%PDF-1.4''"
    and r: "NewReader exampleExternals ''%PDF-1.4'' = Inr exampleReader"
    by (simp_all add: exampleExternals_def)
  from returned_page_numbers [OF o r example_LoadPDF]
  have "Pages exampleDocument = emittedPages binary64 exampleExternals exampleReader"
    by (rule conjunct1)
  then have "map PageNumber (emittedPages binary64 exampleExternals exampleReader)
      = map PageNumber (Pages exampleDocument)"
    by simp
  also have "\<dots> = [1, 3]"
    by (simp add: exampleDocument_def)
  finally show ?thesis .
qed

text \<open>The extractor is built without a returned error: \<^verbatim>\<open>NewExtractor\<close> ends in
  \<^verbatim>\<open>return e, nil\<close>, so the branch of \<open>LoadPDF\<close> that skips a page after an error of
  \<^verbatim>\<open>NewExtractor\<close> is never taken. What can fail there is the unchecked type assertion on
  a font entry (or the CMap parser), and that is a panic.\<close>

lemma loadFont_only_panics: "loadFont ar x rd obj = Inl flt \<Longrightarrow> \<exists>m. flt = Panic m"
  by (auto simp: loadFont_def Let_def split: option.splits sum.splits fault.splits prod.splits)

lemma loadFonts_only_panics: "loadFonts ar x rd d fs = Inl flt \<Longrightarrow> \<exists>m. flt = Panic m"
proof (induction d arbitrary: fs)
  case Nil
  then show ?case by simp
next
  case (Cons entry d)
  obtain name ref where entry: "entry = (name, ref)" by (cases entry)
  show ?case
  proof (cases "dict_of (Resolve rd ref)")
    case None
    with Cons.prems entry show ?thesis by auto
  next
    case (Some fontObj)
    show ?thesis
    proof (cases "loadFont ar x rd fontObj")
      case (Inl p)
      with Cons.prems entry Some have "flt = p" by simp
      with loadFont_only_panics [OF Inl] show ?thesis by simp
    next
      case (Inr f)
      with Cons.prems entry Some
      have "loadFonts ar x rd d (AList.update name f fs) = Inl flt" by simp
      then show ?thesis by (rule Cons.IH)
    qed
  qed
qed

lemma NewExtractor_only_panics:
  "NewExtractor ar x rd pg = Inl flt \<Longrightarrow> \<exists>m. flt = Panic m"
  by (auto simp: NewExtractor_def split: option.splits sum.splits dest: loadFonts_only_panics)

lemma loadPage_extractor_panic:
  "GetPage rd i = Inr pg \<Longrightarrow> NewExtractor ar x rd pg = Inl flt \<Longrightarrow>
   \<exists>m. loadPage ar x rd i = Some (Inl (Panic m))"
  using NewExtractor_only_panics [of ar x rd pg flt] by (auto simp: loadPage_def)

text \<open>A panic in one page ends the loop: no later page is read, and the pages collected
  so far are lost.\<close>

lemma loadPages_aborts:
  "loadPage ar x rd j = Some (Inl (Panic m)) \<Longrightarrow> i \<le> j \<Longrightarrow> j < NumPages rd \<Longrightarrow>
   loadPages ar x rd i acc = None \<or> (\<exists>m'. loadPages ar x rd i acc = Some (Inl (Panic m')))"
proof (induction ar x rd i acc rule: loadPages.induct)
  case (1 ar x rd i acc)
  from "1.prems" have lt: "i < NumPages rd" by simp
  show ?case
  proof (cases "i = j")
    case True
    with "1.prems"(1) lt show ?thesis by (subst loadPages.simps) simp
  next
    case False
    with "1.prems" have le: "i + 1 \<le> j" by simp
    show ?thesis
    proof (cases "loadPage ar x rd i")
      case None
      with lt show ?thesis by (subst loadPages.simps) simp
    next
      case (Some r)
      show ?thesis
      proof (cases r)
        case (Inl flt)
        show ?thesis
        proof (cases flt)
          case (Failure err)
          from "1.IH"(1) [OF lt Some Inl Failure "1.prems"(1) le "1.prems"(3)]
          show ?thesis using lt Some Inl Failure
            by (subst loadPages.simps, simp) (subst loadPages.simps, simp)
        next
          case (Panic m')
          with lt Some Inl show ?thesis by (subst loadPages.simps) simp
        qed
      next
        case (Inr pg)
        from "1.IH"(2) [OF lt Some Inr "1.prems"(1) le "1.prems"(3)]
        show ?thesis using lt Some Inr
          by (subst loadPages.simps, simp) (subst loadPages.simps, simp)
      qed
    qed
  qed
qed

text \<open>The document with the broken font.\<close>

lemma broken_font_pages:
  "loadPage binary64 brokenFontExternals brokenFontReader 0
     = Some (Inr \<lparr>PageNumber = 1, Content = ''Hello'', CharCount = 5, Width = 612,
                  Height = 792\<rparr>)"
  "NewExtractor binary64 brokenFontExternals brokenFontReader brokenFontPage
     = Inl (Panic ''interface conversion'')"
  "loadPage binary64 brokenFontExternals brokenFontReader 1
     = Some (Inl (Panic ''interface conversion''))"
proof -
  have g: "GetPage brokenFontReader 0 = Inr examplePage1"
    "GetPage brokenFontReader 1 = Inr brokenFontPage"
    by (simp_all add: brokenFontReader_def)
  have f: "NewExtractor binary64 brokenFontExternals brokenFontReader examplePage1
      = Inr (newExtractorState binary64 examplePage1)"
    by (simp add: NewExtractor_def examplePage1_def index_dict_def brokenFontReader_def
        exampleResolve_def dict_of_def)
  have c: "contentStreams brokenFontReader
             (Resolve brokenFontReader (index_dict examplePage1 ''/Contents''))
      = [([], ''BT (Hello) Tj ET'')]"
    by (simp add: contentStreams_def examplePage1_def index_dict_def brokenFontReader_def
        exampleResolve_def stream_of_def)
  have t: "textOfStreams binary64 brokenFontExternals (newExtractorState binary64 examplePage1)
             [([], ''BT (Hello) Tj ET'')] = Some (Inr ''Hello'')"
    using text_of_page1 [of examplePage1]
    by (simp add: textOfStreams_def exampleExternals_def brokenFontExternals_def)
  have p: "page (newExtractorState binary64 pg) = pg" for pg
    by (simp add: newExtractorState_def)
  show "loadPage binary64 brokenFontExternals brokenFontReader 0
     = Some (Inr \<lparr>PageNumber = 1, Content = ''Hello'', CharCount = 5, Width = 612,
                  Height = 792\<rparr>)"
    by (simp add: loadPage_def g f ExtractText_textOfStreams p c t example_media_box)
  show n: "NewExtractor binary64 brokenFontExternals brokenFontReader brokenFontPage
     = Inl (Panic ''interface conversion'')"
    by (simp add: NewExtractor_def brokenFontPage_def index_dict_def brokenFontReader_def
        exampleResolve_def dict_of_def)
  show "loadPage binary64 brokenFontExternals brokenFontReader 1
     = Some (Inl (Panic ''interface conversion''))"
    by (simp add: loadPage_def g n)
qed

lemma broken_font_LoadPDF:
  "LoadPDF binary64 brokenFontExternals ''broken.pdf''
     = Some (Inl (Panic ''interface conversion''))"
proof -
  have n: "NumPages brokenFontReader = 2"
    by (simp add: brokenFontReader_def)
  have "loadPages binary64 brokenFontExternals brokenFontReader 0 []
      = Some (Inl (Panic ''interface conversion''))"
    apply (subst loadPages.simps, simp add: n broken_font_pages)
    apply (subst loadPages.simps, simp add: n broken_font_pages)
    done
  moreover have "Open brokenFontExternals ''broken.pdf'' = Inr ''%PDF-1.4''"
    "NewReader brokenFontExternals ''%PDF-1.4'' = Inr brokenFontReader"
    by (simp_all add: brokenFontExternals_def)
  ultimately show ?thesis
    by (simp add: LoadPDF_def n)
qed

text \<open>
  Claim C7, on the code. The claim says that a page whose extractor construction fails
  is skipped while all other pages still proceed and are emitted in order, and so does
  the loop of \<open>LoadPDF\<close> at lines 64-68, which goes on to the next page after an error of
  \<^verbatim>\<open>NewExtractor\<close>. The construction of the extractor fails by a panic only, which nothing
  recovers from: for every document with a page whose extractor construction fails,
  \<open>LoadPDF\<close> returns no document at all; it panics (or does not return), and no page
  record is emitted, not those of the pages that were read before either.
\<close>

theorem extractor_failure_aborts_LoadPDF:
  "Open x path = Inr f \<Longrightarrow> NewReader x f = Inr rd \<Longrightarrow> 0 \<le> i \<Longrightarrow> i < NumPages rd \<Longrightarrow>
   GetPage rd i = Inr pg \<Longrightarrow> NewExtractor ar x rd pg = Inl flt \<Longrightarrow>
   (\<forall>doc. LoadPDF ar x path \<noteq> Some (Inr doc))
   \<and> (LoadPDF ar x path = None \<or> (\<exists>m. LoadPDF ar x path = Some (Inl (Panic m))))"
proof -
  assume o: "Open x path = Inr f" and r: "NewReader x f = Inr rd"
    and i: "0 \<le> i" "i < NumPages rd"
    and g: "GetPage rd i = Inr pg" and n: "NewExtractor ar x rd pg = Inl flt"
  from loadPage_extractor_panic [OF g n]
  obtain m where m: "loadPage ar x rd i = Some (Inl (Panic m))" by blast
  from loadPages_aborts [OF m i, of "[]"]
  have "loadPages ar x rd 0 [] = None
      \<or> (\<exists>m'. loadPages ar x rd 0 [] = Some (Inl (Panic m')))" .
  moreover from i have "\<not> NumPages rd < 0" by simp
  ultimately have "LoadPDF ar x path = None \<or> (\<exists>m. LoadPDF ar x path = Some (Inl (Panic m)))"
    using o r by (auto simp: LoadPDF_def)
  then show ?thesis by auto
qed

text \<open>In the document with the broken font the first page alone loads, with the text
  \<^verbatim>\<open>Hello\<close>; the font of the second page makes \<^verbatim>\<open>NewExtractor\<close> panic, and \<open>LoadPDF\<close>
  ends in that panic.\<close>

theorem extractor_failure_aborts_LoadPDF_witness:
  "Open brokenFontExternals ''broken.pdf'' = Inr ''%PDF-1.4''
   \<and> NewReader brokenFontExternals ''%PDF-1.4'' = Inr brokenFontReader
   \<and> NumPages brokenFontReader = 2
   \<and> GetPage brokenFontReader 1 = Inr brokenFontPage
   \<and> NewExtractor binary64 brokenFontExternals brokenFontReader brokenFontPage
       = Inl (Panic ''interface conversion'')
   \<and> loadPage binary64 brokenFontExternals brokenFontReader 0
       = Some (Inr \<lparr>PageNumber = 1, Content = ''Hello'', CharCount = 5, Width = 612,
                    Height = 792\<rparr>)
   \<and> LoadPDF binary64 brokenFontExternals ''broken.pdf''
       = Some (Inl (Panic ''interface conversion''))"
proof -
  have o: "Open brokenFontExternals ''broken.pdf'' = Inr ''%PDF-1.4''"
    and r: "NewReader brokenFontExternals ''%PDF-1.4'' = Inr brokenFontReader"
    by (simp_all add: brokenFontExternals_def)
  have n: "NumPages brokenFontReader = 2"
    and g: "GetPage brokenFontReader 1 = Inr brokenFontPage"
    by (simp_all add: brokenFontReader_def)
  have i: "(0::int) \<le> 1" "1 < NumPages brokenFontReader"
    by (simp_all add: n)
  note t = extractor_failure_aborts_LoadPDF [OF o r i g broken_font_pages(2)]
  from t have "LoadPDF binary64 brokenFontExternals ''broken.pdf'' = None
      \<or> (\<exists>m. LoadPDF binary64 brokenFontExternals ''broken.pdf'' = Some (Inl (Panic m)))"
    by (rule conjunct2)
  with broken_font_LoadPDF
  have l: "LoadPDF binary64 brokenFontExternals ''broken.pdf''
      = Some (Inl (Panic ''interface conversion''))"
    by simp
  from o r n g broken_font_pages(2) broken_font_pages(1) l show ?thesis
    by (intro conjI)
qed

text \<open>
  Claim C8. In every emitted page record \<open>CharCount\<close> is the length of \<open>Content\<close> in
  bytes.
\<close>

theorem LoadPDF_char_count:
  "LoadPDF ar x path = Some (Inr doc) \<Longrightarrow>
   \<forall>p \<in> set (Pages doc). CharCount p = int (length (Content p))"
  using LoadPDF_Inr [of ar x path doc] by (auto dest: emittedPages_char_count)

theorem LoadPDF_char_count_witness:
  "LoadPDF binary64 exampleExternals ''example.pdf'' = Some (Inr exampleDocument)
   \<and> Pages exampleDocument \<noteq> []
   \<and> CharCount (hd (Pages exampleDocument)) = int (length (Content (hd (Pages exampleDocument))))
   \<and> CharCount (hd (Pages exampleDocument)) = 5"
proof -
  have "hd (Pages exampleDocument) \<in> set (Pages exampleDocument)"
    by (simp add: exampleDocument_def)
  with LoadPDF_char_count [OF example_LoadPDF] example_LoadPDF show ?thesis
    by (auto simp: exampleDocument_def)
qed

section \<open>The scenarios of the specification, run on the model\<close>

text \<open>Section 8 of the specification gives content-stream fragments and the text expected
  of them, for a font with width 500 for each code and space width 250. In binary64
  arithmetic, scenarios 1 (\<^verbatim>\<open>BT /F1 12 Tf 100 700 Td (Hello) Tj ET\<close>) and 3
  (\<^verbatim>\<open>BT /F1 12 Tf 0 0 Td (A) Tj 20 0 Td (B) Tj ET\<close>) come out as written there.\<close>

lemmas show_string_defs =
  handleText_def rawBytes_of_def Let_def detectSpacing_def threshold_def spaceWidth_def
  decodeText_def totalWidth_def heuristicWidth_def HasSuffix_def

lemma processOp_Tf_known:
  "map_of (fonts e) name = Some font \<Longrightarrow>
   processOp ar e \<lparr>Operator = ''Tf'', Operands = [NameObject name, NumberObject sz]\<rparr>
     = Inr (e\<lparr>textState := (textState e)\<lparr>Font := Some font, FontSize := sz\<rparr>\<rparr>)"
  by (subst processOp.simps) (simp add: operand_def number_def)

lemma processOp_Td:
  "processOp ar e \<lparr>Operator = ''Td'', Operands = [NumberObject tx, NumberObject ty]\<rparr>
     = Inr (e\<lparr>textState := (textState e)
              \<lparr>TLM := Mult ar (translate ar tx ty) (TLM (textState e)),
               TM := Mult ar (translate ar tx ty) (TLM (textState e))\<rparr>\<rparr>)"
  by (subst processOp.simps) (simp add: operand_def number_def Let_def)

lemma processOp_TJ:
  "processOp ar e \<lparr>Operator = ''TJ'', Operands = [ArrayObject arr]\<rparr>
     = Inr (fold (TJ_element ar) arr e)"
  by (subst processOp.simps) (simp add: operand_def)

lemma scenario_1:
  "\<exists>e. processOps binary64 (freshExtractor\<lparr>fonts := [(''/F1'', font_F1)]\<rparr>)
     [\<lparr>Operator = ''BT'', Operands = []\<rparr>,
      \<lparr>Operator = ''Tf'', Operands = [NameObject ''/F1'', NumberObject 12]\<rparr>,
      \<lparr>Operator = ''Td'', Operands = [NumberObject 100, NumberObject 700]\<rparr>,
      \<lparr>Operator = ''Tj'', Operands = [StringObject ''Hello'']\<rparr>,
      \<lparr>Operator = ''ET'', Operands = []\<rparr>] = Inr e
   \<and> buffer e = ''Hello'' \<and> lastX e = 130 \<and> lastY e = 700"
  by (simp add: processOp_BT processOp_Tf_known processOp_Td processOp_Tj processOp_ET)
     (auto simp: show_string_defs freshExtractor_def binary64_fresh binary64_text_state
       binary64_identity Mult_def translate_def font_F1_def)

lemma scenario_3:
  "\<exists>e. processOps binary64 (freshExtractor\<lparr>fonts := [(''/F1'', font_F1)]\<rparr>)
     [\<lparr>Operator = ''BT'', Operands = []\<rparr>,
      \<lparr>Operator = ''Tf'', Operands = [NameObject ''/F1'', NumberObject 12]\<rparr>,
      \<lparr>Operator = ''Td'', Operands = [NumberObject 0, NumberObject 0]\<rparr>,
      \<lparr>Operator = ''Tj'', Operands = [StringObject ''A'']\<rparr>,
      \<lparr>Operator = ''Td'', Operands = [NumberObject 20, NumberObject 0]\<rparr>,
      \<lparr>Operator = ''Tj'', Operands = [StringObject ''B'']\<rparr>,
      \<lparr>Operator = ''ET'', Operands = []\<rparr>] = Inr e
   \<and> buffer e = ''A B''"
  by (simp add: processOp_BT processOp_Tf_known processOp_Td processOp_Tj processOp_ET)
     (auto simp: show_string_defs freshExtractor_def binary64_fresh binary64_text_state
       binary64_identity Mult_def translate_def font_F1_def)

text \<open>In scenario 4 (\<^verbatim>\<open>BT /F1 10 Tf [(He) -200 (llo)] TJ ET\<close>) the adjustment leaves a gap
  of 2 where the threshold is 1.25, so \<open>handleText\<close> appends a space.\<close>

lemma scenario_4:
  "\<exists>e. processOps binary64 (freshExtractor\<lparr>fonts := [(''/F1'', font_F1)]\<rparr>)
     [\<lparr>Operator = ''BT'', Operands = []\<rparr>,
      \<lparr>Operator = ''Tf'', Operands = [NameObject ''/F1'', NumberObject 10]\<rparr>,
      \<lparr>Operator = ''TJ'', Operands = [ArrayObject [StringObject ''He'', NumberObject (- 200),
                                                   StringObject ''llo'']]\<rparr>,
      \<lparr>Operator = ''ET'', Operands = []\<rparr>] = Inr e
   \<and> buffer e = ''He llo''"
  by (simp add: processOp_BT processOp_Tf_known processOp_TJ processOp_ET)
     (auto simp: TJ_element_def show_string_defs freshExtractor_def binary64_fresh
       binary64_text_state binary64_identity Mult_def translate_def font_F1_def
       round64_fifth round64_binade_pos [of 1] rne_def)

end
